theory Spec2Isabelle
  imports Main
begin

section \<open>JavaScript strings and numbers\<close>

text \<open>
  Strings are character lists. The texts the program matches (tool output, labels,
  flags) are ASCII; a character outside ASCII is the sequence of its UTF-8 bytes, none
  of which is an ASCII letter, digit or blank, so it takes part in no match below.
  \<open>js_trim\<close> removes the ASCII blanks (tab, line feed, vertical tab, form feed,
  carriage return, space) from both ends; the blanks outside ASCII that \<open>trim\<close>
  also removes are not modelled. \<open>substring(0, n)\<close> is \<open>take n\<close>.
\<close>

definition is_space :: "char \<Rightarrow> bool" where
  "is_space c = (c \<in> set [CHR 0x09, CHR 0x0A, CHR 0x0B, CHR 0x0C, CHR 0x0D, CHR 0x20])"

definition js_trim :: "string \<Rightarrow> string" where
  "js_trim s = rev (dropWhile is_space (rev (dropWhile is_space s)))"

definition js_startsWith :: "string \<Rightarrow> string \<Rightarrow> bool" where
  "js_startsWith s p = (take (length p) s = p)"

definition js_endsWith :: "string \<Rightarrow> string \<Rightarrow> bool" where
  "js_endsWith s p = js_startsWith (rev s) (rev p)"

fun js_indexOf :: "string \<Rightarrow> string \<Rightarrow> nat option" where
  "js_indexOf [] p = (if p = [] then Some 0 else None)"
| "js_indexOf (c # cs) p =
     (if js_startsWith (c # cs) p then Some 0 else map_option Suc (js_indexOf cs p))"

definition js_includes :: "string \<Rightarrow> string \<Rightarrow> bool" where
  "js_includes s p = (js_indexOf s p \<noteq> None)"

text \<open>\<open>s.split(sep)\<close>: the pieces between the occurrences of \<open>sep\<close>, left to right.\<close>

function js_split :: "string \<Rightarrow> string \<Rightarrow> string list" where
  "js_split s sep =
     (if sep = [] then map (\<lambda>c. [c]) s
      else case js_indexOf s sep of
             None \<Rightarrow> [s]
           | Some i \<Rightarrow> take i s # js_split (drop (i + length sep) s) sep)"
  by pat_completeness auto
termination
proof (relation "measure (\<lambda>(s, sep). length s)")
  show "wf (measure (\<lambda>(s, sep). length s))" by simp
next
  fix s sep :: string and i :: nat
  assume sep: "sep \<noteq> []" and found: "js_indexOf s sep = Some i"
  have bound: "js_indexOf t sep = Some j \<Longrightarrow> j + length sep \<le> length t" for t j
  proof (induction t arbitrary: j)
    case Nil
    then show ?case by (simp split: if_splits)
  next
    case (Cons c cs)
    show ?case
    proof (cases "js_startsWith (c # cs) sep")
      case True
      then have "length (take (length sep) (c # cs)) = length sep"
        unfolding js_startsWith_def by simp
      then have "length sep \<le> length (c # cs)" by simp
      with True Cons.prems show ?thesis by simp
    next
      case False
      with Cons.prems obtain k where "js_indexOf cs sep = Some k" "j = Suc k" by auto
      with Cons.IH show ?thesis by simp
    qed
  qed
  from sep have "0 < length sep" by simp
  with bound [OF found] have "length s - (i + length sep) < length s" by arith
  then show "((drop (i + length sep) s, sep), (s, sep)) \<in> measure (\<lambda>(s, sep). length s)"
    by simp
qed

declare js_split.simps [simp del]

text \<open>\<open>xs[i]\<close> on an array: \<open>undefined\<close> out of range.\<close>

fun js_at :: "'a list \<Rightarrow> nat \<Rightarrow> 'a option" where
  "js_at [] i = None"
| "js_at (x # xs) 0 = Some x"
| "js_at (x # xs) (Suc i) = js_at xs i"

definition is_digit :: "char \<Rightarrow> bool" where
  "is_digit c = (c \<in> set ''0123456789'')"

definition digit_val :: "char \<Rightarrow> nat" where
  "digit_val c = of_char c - 48"

text \<open>
  \<open>parseInt\<close> on a string of decimal digits, and \<open>toString\<close> of a number that
  is an integer: decimal notation (both exact below \<open>2 ^ 53\<close>).
\<close>

definition parseInt_digits :: "string \<Rightarrow> nat" where
  "parseInt_digits s = foldl (\<lambda>n c. 10 * n + digit_val c) 0 s"

definition digit_char :: "nat \<Rightarrow> char" where
  "digit_char n = ''0123456789'' ! n"

fun toString_nat :: "nat \<Rightarrow> string" where
  "toString_nat n =
     (if n < 10 then [digit_char n] else toString_nat (n div 10) @ [digit_char (n mod 10)])"

declare toString_nat.simps [simp del]

definition toString :: "int \<Rightarrow> string" where
  "toString i = (if i < 0 then CHR ''-'' # toString_nat (nat (- i)) else toString_nat (nat i))"

section \<open>The trial configuration\<close>

datatype http_method = GET | POST | PUT | DELETE | HEAD

fun method_name :: "http_method \<Rightarrow> string" where
  "method_name GET = ''GET''"
| "method_name POST = ''POST''"
| "method_name PUT = ''PUT''"
| "method_name DELETE = ''DELETE''"
| "method_name HEAD = ''HEAD''"

text \<open>
  \<open>ABTestConfig\<close>, as its interface declares it: the method is one of five, the
  body and the content type are strings, an optional field is an option. The counts
  and limits are integers; the header and cookie objects are their entries in
  enumeration order.
\<close>

record ABTestConfig =
  url :: string
  requests :: int
  concurrency :: int
  timelimit :: "int option"
  keepalive :: "bool option"
  method' :: http_method
  headers :: "(string \<times> string) list option"
  cookies :: "(string \<times> string) list option"
  dataBody :: "string option"
  contentType :: "string option"
  timeout :: "int option"
  verbosity :: "int option"
  authUsername :: "string option"
  authPassword :: "string option"
  proxyUrl :: "string option"
  acceptVaryingLength :: "bool option"

text \<open>Truthiness of an optional string, number and flag.\<close>

fun truthy_str :: "string option \<Rightarrow> bool" where
  "truthy_str None = False"
| "truthy_str (Some s) = (s \<noteq> [])"

fun truthy_int :: "int option \<Rightarrow> bool" where
  "truthy_int None = False"
| "truthy_int (Some n) = (n \<noteq> 0)"

fun truthy_bool :: "bool option \<Rightarrow> bool" where
  "truthy_bool None = False"
| "truthy_bool (Some b) = b"

subsection \<open>validateConfig\<close>

text \<open>
  \<open>url_parses u\<close> stands for the platform's \<open>new URL(u)\<close> returning rather than
  throwing.
\<close>

definition validateConfig :: "(string \<Rightarrow> bool) \<Rightarrow> ABTestConfig \<Rightarrow> string list" where
  "validateConfig url_parses config =
     (if url config = [] then [''URL is required''] else [])
   @ (if requests config \<le> 0 then [''Requests must be greater than 0''] else [])
   @ (if concurrency config \<le> 0 then [''Level concurrency must be greater than 0''] else [])
   @ (if concurrency config > requests config
      then [''Level concurrency must be less than or equal to requests''] else [])
   @ (if method' config = POST \<and> \<not> truthy_str (dataBody config)
      then [''POST method requires data in dataBody''] else [])
   @ (if method' config = PUT \<and> \<not> truthy_str (dataBody config)
      then [''PUT method requires data in dataBody''] else [])
   @ (if url_parses (url config) then [] else [''Invalid URL''])"

subsection \<open>transformDataBody\<close>

text \<open>
  The body, a string, is parsed into a dynamically typed value and printed again (the
  branch of \<open>transformDataBody\<close> for a body that is not a string has no input of
  the declared type). The built-ins
  that do so are parameters, over a type \<open>'v\<close> of JavaScript values; a built-in that
  throws returns \<open>None\<close>. \<open>js_eval s\<close> is the value of \<open>eval('(' + s + ')')\<close>;
  what the evaluated text does beyond its value is outside the model.
  \<open>JSON_stringify\<close> is \<open>None\<close> also where \<open>JSON.stringify\<close> returns
  \<open>undefined\<close>: the write of the payload file rejects that value, so the command
  is not built either way. For the values that \<open>JSON.parse\<close> returns,
  \<open>get_prop v k\<close> is \<open>v[k]\<close>, \<open>truthy\<close> is truthiness, \<open>of_str\<close> and
  \<open>of_num\<close> are the values of a string and of an integer, \<open>template v\<close> is the
  text of \<open>v\<close> inside a template literal and \<open>ge_num v n\<close> is \<open>v >= n\<close>.
\<close>

record 'v js_dyn =
  JSON_parse :: "string \<Rightarrow> 'v option"
  js_eval :: "string \<Rightarrow> 'v option"
  JSON_stringify :: "'v \<Rightarrow> string option"
  js_String :: "'v \<Rightarrow> string option"
  is_object :: "'v \<Rightarrow> bool"
  Object_entries :: "'v \<Rightarrow> (string \<times> 'v) list option"
  URLSearchParams_toString :: "(string \<times> string) list \<Rightarrow> string"
  get_prop :: "'v \<Rightarrow> string \<Rightarrow> 'v"
  truthy :: "'v \<Rightarrow> bool"
  of_str :: "string \<Rightarrow> 'v"
  of_num :: "int \<Rightarrow> 'v"
  template :: "'v \<Rightarrow> string"
  ge_num :: "'v \<Rightarrow> int \<Rightarrow> bool"

datatype failure = Thrown

definition js_toLowerCase :: "string \<Rightarrow> string" where
  "js_toLowerCase s =
     map (\<lambda>c. let n = (of_char c :: nat) in if 65 \<le> n \<and> n \<le> 90 then char_of (n + 32) else c) s"

definition or_throw :: "'a option \<Rightarrow> failure + 'a" where
  "or_throw x = (case x of None \<Rightarrow> Inl Thrown | Some y \<Rightarrow> Inr y)"

text \<open>The loop \<open>params.append(key, String(value))\<close> over the entries.\<close>

fun append_params :: "'v js_dyn \<Rightarrow> (string \<times> 'v) list \<Rightarrow> (string \<times> string) list option" where
  "append_params js [] = Some []"
| "append_params js ((key, v) # es) =
     (case js_String js v of
        None \<Rightarrow> None
      | Some sv \<Rightarrow> map_option (\<lambda>ps. (key, sv) # ps) (append_params js es))"

definition stringify_or_String :: "'v js_dyn \<Rightarrow> 'v \<Rightarrow> failure + string" where
  "stringify_or_String js parsedData =
     or_throw (if is_object js parsedData then JSON_stringify js parsedData
               else js_String js parsedData)"

definition transformDataBody :: "'v js_dyn \<Rightarrow> string \<Rightarrow> string option \<Rightarrow> failure + string" where
  "transformDataBody js body ctype =
     (case (case JSON_parse js body of Some v \<Rightarrow> Some v | None \<Rightarrow> js_eval js body) of
        None \<Rightarrow> Inr body
      | Some parsedData \<Rightarrow>
          (if \<not> truthy_str ctype then stringify_or_String js parsedData
           else
             let normalizedContentType = js_toLowerCase (case ctype of Some t \<Rightarrow> t | None \<Rightarrow> [])
             in if js_includes normalizedContentType ''application/x-www-form-urlencoded''
                then (case Object_entries js parsedData of
                        None \<Rightarrow> Inl Thrown
                      | Some es \<Rightarrow>
                          (case append_params js es of
                             None \<Rightarrow> Inl Thrown
                           | Some params \<Rightarrow> Inr (URLSearchParams_toString js params)))
                else if js_includes normalizedContentType ''application/json''
                then or_throw (JSON_stringify js parsedData)
                else if js_includes normalizedContentType ''multipart/form-data''
                then or_throw (JSON_stringify js parsedData)
                else stringify_or_String js parsedData))"

subsection \<open>Temporary payload files\<close>

text \<open>
  The file system is a map from paths to contents. The platform gives the scratch
  directory, \<open>path.join\<close> and which paths can be written; \<open>Date.now()\<close> is the
  argument \<open>now\<close>.
\<close>

type_synonym files = "string \<rightharpoonup> string"

record platform =
  tmpdir :: string
  path_join :: "string \<Rightarrow> string \<Rightarrow> string"
  writable :: "string \<Rightarrow> bool"

definition createTempDataFile ::
  "platform \<Rightarrow> nat \<Rightarrow> string \<Rightarrow> string \<Rightarrow> files \<Rightarrow> failure + (string \<times> files)" where
  "createTempDataFile pf now content sessionId fs =
     (let fileName = path_join pf (tmpdir pf)
                       (''ab-'' @ sessionId @ ''-'' @ toString_nat now @ ''.txt'')
      in if writable pf fileName then Inr (fileName, fs(fileName \<mapsto> content)) else Inl Thrown)"

text \<open>\<open>fs.unlink\<close>, its errors ignored.\<close>

definition cleanupTempDataFile :: "string \<Rightarrow> files \<Rightarrow> files" where
  "cleanupTempDataFile fileName fs = fs(fileName := None)"

subsection \<open>buildCommand\<close>

record CommandResult =
  args :: "string list"
  dataFile :: "string option"

text \<open>\<open>if (x) args.push(flag, x.toString())\<close> and \<open>if (x) args.push(flag, x)\<close>.\<close>

fun push_int :: "string \<Rightarrow> int option \<Rightarrow> string list" where
  "push_int flag (Some n) = (if n \<noteq> 0 then [flag, toString n] else [])"
| "push_int flag None = []"

fun push_str :: "string \<Rightarrow> string option \<Rightarrow> string list" where
  "push_str flag (Some s) = (if s \<noteq> [] then [flag, s] else [])"
| "push_str flag None = []"

fun push_entries :: "string \<Rightarrow> string \<Rightarrow> (string \<times> string) list option \<Rightarrow> string list" where
  "push_entries flag sep None = []"
| "push_entries flag sep (Some es) = concat (map (\<lambda>(key, v). [flag, key @ sep @ v]) es)"

text \<open>
  The body shared by the POST/GET branch (\<open>flag = -p\<close>) and the PUT branch
  (\<open>flag = -u\<close>): transform the body, write it, push the flag, the file and the
  content type.
\<close>

definition push_payload ::
  "'v js_dyn \<Rightarrow> platform \<Rightarrow> nat \<Rightarrow> ABTestConfig \<Rightarrow> string \<Rightarrow> string \<Rightarrow> files
     \<Rightarrow> failure + (string list \<times> string option \<times> files)" where
  "push_payload js pf now config sessionId flag fs =
     (case transformDataBody js (case dataBody config of Some b \<Rightarrow> b | None \<Rightarrow> [])
             (contentType config) of
        Inl e \<Rightarrow> Inl e
      | Inr transformedData \<Rightarrow>
          (case createTempDataFile pf now transformedData sessionId fs of
             Inl e \<Rightarrow> Inl e
           | Inr (file, fs') \<Rightarrow>
               Inr ([flag, file] @ push_str ''-T'' (contentType config), Some file, fs')))"

definition verbosity_arg :: "ABTestConfig \<Rightarrow> int" where
  "verbosity_arg config = max (case verbosity config of Some v \<Rightarrow> v | None \<Rightarrow> 3) 3"

text \<open>The arguments pushed before the verbosity flag, and from it up to the payload.\<close>

definition args_before_verbosity :: "ABTestConfig \<Rightarrow> string list" where
  "args_before_verbosity config =
       [''ab'']
     @ [''-n'', toString (requests config)]
     @ [''-c'', toString (concurrency config)]
     @ push_int ''-t'' (timelimit config)
     @ (if truthy_bool (keepalive config) then [''-k''] else [])
     @ (if method' config \<noteq> GET then [''-m'', method_name (method' config)] else [])
     @ push_int ''-s'' (timeout config)"

definition args_after_verbosity :: "ABTestConfig \<Rightarrow> string list" where
  "args_after_verbosity config =
       (if truthy_bool (acceptVaryingLength config) then [''-l''] else [])
     @ push_entries ''-H'' '': '' (headers config)
     @ push_entries ''-C'' ''='' (cookies config)
     @ (if truthy_str (authUsername config) \<and> truthy_str (authPassword config)
        then [''-A'', (case authUsername config of Some u \<Rightarrow> u | None \<Rightarrow> []) @ '':''
                      @ (case authPassword config of Some p \<Rightarrow> p | None \<Rightarrow> [])]
        else [])
     @ push_str ''-X'' (proxyUrl config)"

definition buildCommand ::
  "'v js_dyn \<Rightarrow> platform \<Rightarrow> nat \<Rightarrow> ABTestConfig \<Rightarrow> string \<Rightarrow> files
     \<Rightarrow> failure + (CommandResult \<times> files)" where
  "buildCommand js pf now config sessionId fs =
     (let args0 = args_before_verbosity config
                @ [''-v'', toString (verbosity_arg config)]
                @ args_after_verbosity config
      in case (if (method' config = POST \<or> method' config = GET) \<and> truthy_str (dataBody config)
               then push_payload js pf now config sessionId ''-p'' fs
               else Inr ([], None, fs)) of
           Inl e \<Rightarrow> Inl e
         | Inr (args1, dataFile1, fs1) \<Rightarrow>
             (case (if method' config = PUT \<and> truthy_str (dataBody config)
                    then push_payload js pf now config sessionId ''-u'' fs1
                    else Inr ([], dataFile1, fs1)) of
                Inl e \<Rightarrow> Inl e
              | Inr (args2, dataFile2, fs2) \<Rightarrow>
                  Inr (\<lparr>args = args0 @ args1 @ args2 @ [url config], dataFile = dataFile2\<rparr>,
                       fs2)))"

section \<open>Parsing the results\<close>

text \<open>
  The numbers of a result are JavaScript numbers. Their built-ins are parameters, over
  a type \<open>'n\<close> of numbers: \<open>parseInt s\<close>, \<open>parseInt10 s\<close> (radix 10),
  \<open>parseFloat s\<close>, the number \<open>num i\<close> of an integer, truthiness (neither zero
  nor NaN) and \<open>toFixed(2)\<close>.
\<close>

record 'n js_num =
  parseInt :: "string \<Rightarrow> 'n"
  parseInt10 :: "string \<Rightarrow> 'n"
  parseFloat :: "string \<Rightarrow> 'n"
  num :: "int \<Rightarrow> 'n"
  truthy_num :: "'n \<Rightarrow> bool"
  toFixed2 :: "'n \<Rightarrow> string"

record ErrorSummaryEntry =
  es_statusCode :: string
  es_count :: nat
  es_message :: string

text \<open>
  \<open>ABTestResult\<close> and \<open>Partial<ABTestResult>\<close>: an object whose keys may be absent.
  The status-code object is the list of its keys with their counts, in insertion
  order. (The keys \<open>percentileTable\<close> and \<open>error\<close> of the interface are never
  written by the runner.)
\<close>

record 'n ABTestResult =
  serverSoftware :: "string option"
  serverHostname :: "string option"
  serverPort :: "'n option"
  documentPath :: "string option"
  documentLength :: "'n option"
  concurrencyLevel :: "'n option"
  timeTaken :: "'n option"
  completeRequests :: "'n option"
  failedRequests :: "'n option"
  totalTransferred :: "'n option"
  htmlTransferred :: "'n option"
  requestsPerSecond :: "'n option"
  timePerRequest :: "'n option"
  timePerRequestConcurrent :: "'n option"
  transferRate :: "'n option"
  statusCodes :: "(string \<times> nat) list option"
  successfulRequests :: "nat option"
  clientErrors :: "nat option"
  serverErrors :: "nat option"
  redirects :: "nat option"
  errorSummary :: "ErrorSummaryEntry list option"

definition empty_result :: "'n ABTestResult" where
  "empty_result =
     \<lparr>serverSoftware = None, serverHostname = None, serverPort = None, documentPath = None,
      documentLength = None, concurrencyLevel = None, timeTaken = None,
      completeRequests = None, failedRequests = None, totalTransferred = None,
      htmlTransferred = None, requestsPerSecond = None, timePerRequest = None,
      timePerRequestConcurrent = None, transferRate = None, statusCodes = None,
      successfulRequests = None, clientErrors = None, serverErrors = None, redirects = None,
      errorSummary = None\<rparr>"

subsection \<open>The status-code scan\<close>

text \<open>The first suffix of a text, from the left, at which a matcher succeeds.\<close>

fun find_first :: "(string \<Rightarrow> 'a option) \<Rightarrow> string \<Rightarrow> 'a option" where
  "find_first m [] = m []"
| "find_first m (c # cs) = (case m (c # cs) of Some r \<Rightarrow> Some r | None \<Rightarrow> find_first m cs)"

text \<open>The pattern \<open>HTTP\/1\.[01] (\d{3})\<close> at the start of a text: its group.\<close>

definition status_at :: "string \<Rightarrow> string option" where
  "status_at s =
     (if js_startsWith s ''HTTP/1.'' then
        (case drop 7 s of
           v # sp # d1 # d2 # d3 # _ \<Rightarrow>
             if (v = CHR ''0'' \<or> v = CHR ''1'') \<and> sp = CHR '' ''
                \<and> is_digit d1 \<and> is_digit d2 \<and> is_digit d3
             then Some [d1, d2, d3] else None
         | _ \<Rightarrow> None)
      else None)"

definition match_status :: "string \<Rightarrow> string option" where
  "match_status trimmed = find_first status_at trimmed"

text \<open>\<open>statusCodes[statusCode] = (statusCodes[statusCode] || 0) + 1\<close>.\<close>

fun bump :: "string \<Rightarrow> (string \<times> nat) list \<Rightarrow> (string \<times> nat) list" where
  "bump k [] = [(k, 1)]"
| "bump k ((k', n) # kvs) = (if k = k' then (k', n + 1) # kvs else (k', n) # bump k kvs)"

definition scan_status :: "string \<Rightarrow> (string \<times> nat) list \<Rightarrow> (string \<times> nat) list" where
  "scan_status trimmed codes =
     (if js_includes trimmed ''HTTP/1.'' \<and> match_status trimmed \<noteq> None then
        (case match_status trimmed of Some statusCode \<Rightarrow> bump statusCode codes | None \<Rightarrow> codes)
      else codes)"

subsection \<open>The labelled fields\<close>

text \<open>\<open>trimmed.split(label)[1]?.trim()\<close> and \<open>trimmed.split(label)[1]?.trim().split(' ')[0]\<close>.\<close>

definition label_value :: "string \<Rightarrow> string \<Rightarrow> string option" where
  "label_value trimmed label = map_option js_trim (js_at (js_split trimmed label) 1)"

definition first_word :: "string \<Rightarrow> string \<Rightarrow> string option" where
  "first_word trimmed label =
     (case label_value trimmed label of None \<Rightarrow> None | Some s \<Rightarrow> js_at (js_split s '' '') 0)"

text \<open>\<open>x || d\<close> on an optional string, and \<open>x ? f(x) : 0\<close>.\<close>

definition or_str :: "string option \<Rightarrow> string \<Rightarrow> string" where
  "or_str x d = (case x of None \<Rightarrow> d | Some s \<Rightarrow> if s \<noteq> [] then s else d)"

definition num_or_zero :: "'n js_num \<Rightarrow> (string \<Rightarrow> 'n) \<Rightarrow> string option \<Rightarrow> 'n" where
  "num_or_zero nm f x = (if truthy_str x then f (or_str x []) else num nm 0)"

definition if_then :: "bool \<Rightarrow> ('a \<Rightarrow> 'a) \<Rightarrow> 'a \<Rightarrow> 'a" where
  "if_then c f r = (if c then f r else r)"

text \<open>The label tests of one line, in the order of the loop body.\<close>

definition label_steps :: "'n js_num \<Rightarrow> string \<Rightarrow> ('n ABTestResult \<Rightarrow> 'n ABTestResult) list" where
  "label_steps nm trimmed =
     [if_then (js_includes trimmed ''Server Software:'')
        (\<lambda>r. r\<lparr>serverSoftware := label_value trimmed ''Server Software:''\<rparr>),
      if_then (js_includes trimmed ''Server Hostname:'')
        (\<lambda>r. r\<lparr>serverHostname := Some (or_str (label_value trimmed ''Server Hostname:'') [])\<rparr>),
      if_then (js_includes trimmed ''Server Port:'')
        (\<lambda>r. r\<lparr>serverPort :=
                Some (parseInt nm (or_str (label_value trimmed ''Server Port:'') ''0''))\<rparr>),
      if_then (js_includes trimmed ''Document Path:'')
        (\<lambda>r. r\<lparr>documentPath := Some (or_str (label_value trimmed ''Document Path:'') [])\<rparr>),
      if_then (js_includes trimmed ''Document Length:'')
        (\<lambda>r. r\<lparr>documentLength :=
                Some (num_or_zero nm (parseInt10 nm) (first_word trimmed ''Document Length:''))\<rparr>),
      if_then (js_includes trimmed ''Concurrency Level:'')
        (\<lambda>r. r\<lparr>concurrencyLevel :=
                Some (parseInt nm (or_str (label_value trimmed ''Concurrency Level:'') ''0''))\<rparr>),
      if_then (js_includes trimmed ''Time taken for tests:'')
        (\<lambda>r. r\<lparr>timeTaken :=
                Some (num_or_zero nm (parseFloat nm) (first_word trimmed ''Time taken for tests:''))\<rparr>),
      if_then (js_includes trimmed ''Complete requests:'')
        (\<lambda>r. r\<lparr>completeRequests :=
                Some (parseInt nm (or_str (label_value trimmed ''Complete requests:'') ''0''))\<rparr>),
      if_then (js_includes trimmed ''Failed requests:'')
        (\<lambda>r. r\<lparr>failedRequests :=
                Some (parseInt nm (or_str (label_value trimmed ''Failed requests:'') ''0''))\<rparr>),
      if_then (js_includes trimmed ''Total transferred:'')
        (\<lambda>r. r\<lparr>totalTransferred :=
                Some (num_or_zero nm (parseInt nm) (first_word trimmed ''Total transferred:''))\<rparr>),
      if_then (js_includes trimmed ''HTML transferred:'')
        (\<lambda>r. r\<lparr>htmlTransferred :=
                Some (num_or_zero nm (parseInt nm) (first_word trimmed ''HTML transferred:''))\<rparr>),
      if_then (js_includes trimmed ''Requests per second:'')
        (\<lambda>r. r\<lparr>requestsPerSecond :=
                Some (num_or_zero nm (parseFloat nm) (first_word trimmed ''Requests per second:''))\<rparr>),
      if_then (js_includes trimmed ''Time per request:''
               \<and> \<not> js_includes trimmed ''across all concurrent'')
        (\<lambda>r. r\<lparr>timePerRequest :=
                Some (num_or_zero nm (parseFloat nm) (first_word trimmed ''Time per request:''))\<rparr>),
      if_then (js_includes trimmed ''Time per request:''
               \<and> js_includes trimmed ''across all concurrent'')
        (\<lambda>r. r\<lparr>timePerRequestConcurrent :=
                Some (num_or_zero nm (parseFloat nm) (first_word trimmed ''Time per request:''))\<rparr>),
      if_then (js_includes trimmed ''Transfer rate:'')
        (\<lambda>r. r\<lparr>transferRate :=
                Some (num_or_zero nm (parseFloat nm) (first_word trimmed ''Transfer rate:''))\<rparr>)]"

definition parse_labels :: "'n js_num \<Rightarrow> string \<Rightarrow> 'n ABTestResult \<Rightarrow> 'n ABTestResult" where
  "parse_labels nm trimmed result = foldl (\<lambda>r step. step r) result (label_steps nm trimmed)"

text \<open>
  One round of the loop over the lines: the status-code scan writes the status-code
  object, the label tests write the result.
\<close>

definition parse_line ::
  "'n js_num \<Rightarrow> 'n ABTestResult \<times> (string \<times> nat) list \<Rightarrow> string
     \<Rightarrow> 'n ABTestResult \<times> (string \<times> nat) list" where
  "parse_line nm acc line =
     (let trimmed = js_trim line
      in (parse_labels nm trimmed (fst acc), scan_status trimmed (snd acc)))"

subsection \<open>The status-code categories\<close>

definition statusMessages :: "(nat \<times> string) list" where
  "statusMessages =
     [(200, ''OK''), (201, ''Created''), (204, ''No Content''), (301, ''Moved Permanently''),
      (302, ''Found''), (304, ''Not Modified''), (400, ''Bad Request''),
      (401, ''Unauthorized''), (403, ''Forbidden''), (404, ''Not Found''),
      (405, ''Method Not Allowed''), (429, ''Too Many Requests''),
      (500, ''Internal Server Error''), (502, ''Bad Gateway''),
      (503, ''Service Unavailable''), (504, ''Gateway Timeout'')]"

definition getStatusMessage :: "nat \<Rightarrow> string" where
  "getStatusMessage statusCode =
     (case map_of statusMessages statusCode of
        Some m \<Rightarrow> m
      | None \<Rightarrow> ''HTTP '' @ toString_nat statusCode)"

text \<open>
  \<open>Object.entries\<close> of the status-code object: the keys that are array indices
  (decimal, no leading zero, below \<open>2^32 - 1\<close>) in ascending order, then the other
  keys in insertion order.
\<close>

definition is_array_index :: "string \<Rightarrow> bool" where
  "is_array_index k =
     (k \<noteq> [] \<and> list_all is_digit k \<and> (k = ''0'' \<or> take 1 k \<noteq> ''0'')
      \<and> parseInt_digits k < 4294967295)"

definition Object_entries_codes :: "(string \<times> nat) list \<Rightarrow> (string \<times> nat) list" where
  "Object_entries_codes codes =
     sort_key (\<lambda>(k, n). parseInt_digits k) (filter (\<lambda>(k, n). is_array_index k) codes)
     @ filter (\<lambda>(k, n). \<not> is_array_index k) codes"

text \<open>The counters of the category loop: successful, client, server, redirects, summary.\<close>

type_synonym tally = "nat \<times> nat \<times> nat \<times> nat \<times> ErrorSummaryEntry list"

definition categorize :: "tally \<Rightarrow> string \<times> nat \<Rightarrow> tally" where
  "categorize t entry =
     (case t of (successful, client, server, redirect, summary) \<Rightarrow>
      case entry of (code, cnt) \<Rightarrow>
        let statusNum = parseInt_digits code;
            item = \<lparr>es_statusCode = code, es_count = cnt,
                    es_message = getStatusMessage statusNum\<rparr>
        in if 200 \<le> statusNum \<and> statusNum < 300
             then (successful + cnt, client, server, redirect, summary)
           else if 300 \<le> statusNum \<and> statusNum < 400
             then (successful, client, server, redirect + cnt, summary @ [item])
           else if 400 \<le> statusNum \<and> statusNum < 500
             then (successful, client + cnt, server, redirect, summary @ [item])
           else if 500 \<le> statusNum
             then (successful, client, server + cnt, redirect, summary @ [item])
           else t)"

subsection \<open>parseResults\<close>

definition parseResults :: "'n js_num \<Rightarrow> string \<Rightarrow> 'n ABTestResult" where
  "parseResults nm output =
     (case foldl (parse_line nm) (empty_result, []) (js_split output [CHR 0x0A]) of
        (result, codes) \<Rightarrow>
          if codes \<noteq> [] then
            (case foldl categorize (0, 0, 0, 0, []) (Object_entries_codes codes) of
               (successful, client, server, redirect, summary) \<Rightarrow>
                 result\<lparr>statusCodes := Some codes,
                        successfulRequests := Some successful,
                        clientErrors := Some client,
                        serverErrors := Some server,
                        redirects := Some redirect,
                        errorSummary := Some summary\<rparr>)
          else result)"

section \<open>The runner\<close>

datatype LogLevel = info | error | debug

record ChildProcess =
  pid :: "nat option"
  killed :: bool

record 'v PendingJson =
  pj_status :: 'v
  pj_code :: 'v
  pj_message :: 'v
  pj_statusCode :: 'v

text \<open>The variables of one run that its callbacks share.\<close>

record 'v RunState =
  output' :: string
  errorOutput :: string
  responseCount :: nat
  pendingJsonResponse :: "'v PendingJson option"

text \<open>The promise of a run: resolved with a result or \<open>null\<close>, or rejected.\<close>

datatype 'n outcome = Resolved "'n ABTestResult option" | Rejected string

text \<open>
  The state the callbacks of a run act on: the runner's two collections, the run's
  variables, the file system with the calls of \<open>fs.unlink\<close> so far, the calls of
  \<open>onLog\<close> so far, the kill signals sent so far (by process id), and the promise
  once it is settled.
\<close>

record ('v, 'n) World =
  activeProcesses :: "string \<rightharpoonup> ChildProcess"
  stoppedByUser :: "string set"
  run_state :: "'v RunState"
  disk :: files
  unlinks :: "string list"
  emitted :: "(LogLevel \<times> string) list"
  kills :: "nat option list"
  settled :: "'n outcome option"

definition onLog :: "LogLevel \<Rightarrow> string \<Rightarrow> ('v, 'n) World \<Rightarrow> ('v, 'n) World" where
  "onLog lvl msg w = w\<lparr>emitted := emitted w @ [(lvl, msg)]\<rparr>"

text \<open>\<open>if (dataFile) this.cleanupTempDataFile(dataFile)\<close>.\<close>

definition cleanup_if :: "string option \<Rightarrow> ('v, 'n) World \<Rightarrow> ('v, 'n) World" where
  "cleanup_if file w =
     (case file of
        None \<Rightarrow> w
      | Some f \<Rightarrow> if f \<noteq> [] then w\<lparr>disk := cleanupTempDataFile f (disk w),
                                       unlinks := unlinks w @ [f]\<rparr>
                  else w)"

text \<open>The symbols of the log messages, as UTF-8.\<close>

definition rocket :: string where
  "rocket = [CHR 0xF0, CHR 0x9F, CHR 0x9A, CHR 0x80]"

definition hourglass :: string where
  "hourglass = [CHR 0xE2, CHR 0x8F, CHR 0xB3]"

definition warning_sign :: string where
  "warning_sign = [CHR 0xE2, CHR 0x9A, CHR 0xA0, CHR 0xEF, CHR 0xB8, CHR 0x8F]"

definition check_mark :: string where
  "check_mark = [CHR 0xE2, CHR 0x9C, CHR 0x85]"

definition cross_mark :: string where
  "cross_mark = [CHR 0xE2, CHR 0x9D, CHR 0x8C]"

subsection \<open>The patterns of the callbacks\<close>

text \<open>The digits a text starts with.\<close>

definition digits_of :: "string \<Rightarrow> string" where
  "digits_of s = takeWhile is_digit s"

text \<open>A literal, then one or more digits, then a literal: the digits.\<close>

definition digits_between :: "string \<Rightarrow> string \<Rightarrow> string \<Rightarrow> string option" where
  "digits_between before after s =
     (if js_startsWith s before then
        (let r = drop (length before) s; ds = digits_of r
         in if ds \<noteq> [] \<and> js_startsWith (drop (length ds) r) after then Some ds else None)
      else None)"

text \<open>\<open>Response code not 2xx \((\d+)\)\<close>, \<open>Response code = (\d+)\<close>, \<open>Completed (\d+) requests\<close>.\<close>

definition match_not_2xx :: "string \<Rightarrow> string option" where
  "match_not_2xx trimmed = find_first (digits_between ''Response code not 2xx ('' '')'') trimmed"

definition match_response_code :: "string \<Rightarrow> string option" where
  "match_response_code trimmed = find_first (digits_between ''Response code = '' []) trimmed"

definition match_completed :: "string \<Rightarrow> string option" where
  "match_completed trimmed = find_first (digits_between ''Completed '' '' requests'') trimmed"

definition ignorablePatterns :: "string list" where
  "ignorablePatterns =
     [''SSL/TLS Handshake'', ''SSL/TLS State'', ''SSL/TLS'', ''SSLv3/TLS write'',
      ''SSLv3/TLS read'', ''TLSv1.3 read'', ''TLSv1.2 read'', ''TLSv1.1 read'',
      ''read server certificate'', ''read encrypted extensions'',
      ''read server certificate verify'', ''read finished'', ''write client hello'',
      ''before SSL initialization'', ''before SSL/TLS connection'',
      ''after SSL/TLS connection'', ''SSL-Session:'', ''Session-ID:'', ''Session-ID-ctx:'',
      ''Protocol :'', ''Transport Protocol :'', ''Max Early Data:'',
      ''Extended master secret:'', ''Verify return code:'', ''Timeout :'', ''Start Time:'',
      ''Cipher :'', ''Cipher Suite'', ''Cipher Bits:'', ''Resumption PSK:'', ''PSK identity:'',
      ''PSK identity hint:'', ''SRP username:'', ''Key-Arg   :'', ''TLS session ticket'',
      ''Compression:'', ''Expansion:'', ''SSL'']"

definition isIgnorableDebugMessage :: "string \<Rightarrow> bool" where
  "isIgnorableDebugMessage msg = list_ex (\<lambda>pattern. js_includes msg pattern) ignorablePatterns"

subsection \<open>The stdout line callback\<close>

text \<open>\<open>a || b\<close> on values.\<close>

definition js_or :: "'v js_dyn \<Rightarrow> 'v \<Rightarrow> 'v \<Rightarrow> 'v" where
  "js_or js a b = (if truthy js a then a else b)"

definition pending_of :: "'v js_dyn \<Rightarrow> 'v \<Rightarrow> 'v PendingJson" where
  "pending_of js parsed =
     (let code = js_or js (get_prop js parsed ''code'')
                   (js_or js (get_prop js parsed ''statusCode'') (of_str js []))
      in \<lparr>pj_status = js_or js (get_prop js parsed ''status'') (of_str js ''unknown''),
          pj_code = code,
          pj_message = js_or js (get_prop js parsed ''message'') (of_str js ''Unknown error''),
          pj_statusCode = js_or js (get_prop js parsed ''statusCode'')
                            (js_or js code (of_num js 0))\<rparr>)"

text \<open>The branch of a line with \<open>WARNING: Response code not 2xx\<close>.\<close>

definition on_warning ::
  "'v js_dyn \<Rightarrow> int \<Rightarrow> string \<Rightarrow> ('v, 'n) World \<Rightarrow> ('v, 'n) World" where
  "on_warning js verb trimmed w =
     (let count = responseCount (run_state w) + 1;
          w1 = w\<lparr>run_state := (run_state w)\<lparr>responseCount := count\<rparr>\<rparr>;
          msg = warning_sign @ '' Request #'' @ toString_nat count @ '': ''
                @ (case match_not_2xx trimmed of
                     Some ds \<Rightarrow> ''statusCode: '' @ toString_nat (parseInt_digits ds) @ '', ''
                   | None \<Rightarrow> ''Non-2xx response, '')
      in case pendingJsonResponse (run_state w1) of
           Some pending \<Rightarrow>
             (let msg2 = msg @ ''status: '' @ template js (pj_status pending) @ '',''
                         @ [CHR 0x0A, CHR 0x0A] @ replicate 14 (CHR 0x20)
                         @ ''code: '' @ template js (pj_code pending) @ '',''
                         @ [CHR 0x0A, CHR 0x0A] @ replicate 14 (CHR 0x20)
                         @ ''message: '' @ template js (pj_message pending);
                  w2 = (if ge_num js (pj_statusCode pending) 400 then onLog error msg2 w1
                        else if verb \<ge> 3 then onLog debug msg2 w1
                        else w1)
              in w2\<lparr>run_state := (run_state w2)\<lparr>pendingJsonResponse := None\<rparr>\<rparr>)
         | None \<Rightarrow> onLog error msg w1)"

text \<open>The branch of a line with \<open>LOG: Response code\<close>.\<close>

definition on_response_code :: "int \<Rightarrow> string \<Rightarrow> ('v, 'n) World \<Rightarrow> ('v, 'n) World" where
  "on_response_code verb trimmed w =
     (case match_response_code trimmed of
        None \<Rightarrow> w
      | Some ds \<Rightarrow>
          (let statusCode = parseInt_digits ds
           in if 200 \<le> statusCode \<and> statusCode < 300 then
                (let count = responseCount (run_state w) + 1;
                     w1 = w\<lparr>run_state := (run_state w)\<lparr>responseCount := count\<rparr>\<rparr>
                 in if count mod 10 = 0
                    then onLog debug (''Progress: '' @ toString_nat count @ '' requests completed'') w1
                    else if verb \<ge> 3
                    then onLog debug (''Request #'' @ toString_nat count @ '': HTTP ''
                                      @ toString_nat statusCode) w1
                    else w1)
              else w))"

text \<open>
  \<open>stdoutReader.on('line', ...)\<close>; \<open>verb\<close> is \<open>config.verbosity ?? 2\<close> of the run.
\<close>

definition on_stdout_line ::
  "'v js_dyn \<Rightarrow> int \<Rightarrow> string \<Rightarrow> string \<Rightarrow> ('v, 'n) World \<Rightarrow> ('v, 'n) World" where
  "on_stdout_line js verb sessionId line w =
     (if sessionId \<in> stoppedByUser w then w
      else
        let trimmed = js_trim line
        in if trimmed = [] then w
           else
             let w1 = w\<lparr>run_state := (run_state w)\<lparr>output' := output' (run_state w) @ line
                                                          @ [CHR 0x0A]\<rparr>\<rparr>
             in if js_includes trimmed ''Benchmarking''
                  then onLog info (rocket @ '' '' @ trimmed) w1
                else if js_startsWith trimmed ''{'' \<and> js_endsWith trimmed ''}''
                  then (case JSON_parse js trimmed of
                          Some parsed \<Rightarrow>
                            w1\<lparr>run_state := (run_state w1)\<lparr>pendingJsonResponse :=
                                                Some (pending_of js parsed)\<rparr>\<rparr>
                        | None \<Rightarrow>
                            onLog debug (''Failed to parse JSON: '' @ take 100 trimmed @ ''...'') w1)
                else if js_includes trimmed ''WARNING: Response code not 2xx''
                  then on_warning js verb trimmed w1
                else if js_includes trimmed ''LOG: Response code''
                  then on_response_code verb trimmed w1
                else w1)"

subsection \<open>The stderr data callback\<close>

definition on_stderr_line :: "string \<Rightarrow> ('v, 'n) World \<Rightarrow> ('v, 'n) World" where
  "on_stderr_line line w =
     (let trimmed = js_trim line
      in if trimmed = [] then w
         else if js_includes trimmed ''Completed'' \<and> js_includes trimmed ''requests''
           then (case match_completed trimmed of
                   Some ds \<Rightarrow> onLog info (check_mark @ '' Finished: '' @ ds @ '' requests'') w
                 | None \<Rightarrow> w)
         else if js_includes trimmed ''apr_socket_recv'' \<or> js_includes trimmed ''Connection''
                 \<or> js_includes trimmed ''Failed''
           then onLog error (cross_mark @ '' Error: '' @ trimmed) w
         else if \<not> js_includes trimmed ''Finished'' \<and> \<not> isIgnorableDebugMessage trimmed
           then onLog debug (''STDERR: '' @ trimmed) w
         else w)"

definition on_stderr_data :: "string \<Rightarrow> string \<Rightarrow> ('v, 'n) World \<Rightarrow> ('v, 'n) World" where
  "on_stderr_data sessionId chunk w =
     (if sessionId \<in> stoppedByUser w then w
      else
        let w1 = w\<lparr>run_state := (run_state w)\<lparr>errorOutput := errorOutput (run_state w) @ chunk\<rparr>\<rparr>;
            lines = filter (\<lambda>line. js_trim line \<noteq> []) (js_split chunk [CHR 0x0A])
        in foldl (\<lambda>w' line. on_stderr_line line w') w1 lines)"

subsection \<open>The heartbeat\<close>

text \<open>The interval callback; \<open>exited\<close> is \<open>abProcess.exitCode !== null\<close>.\<close>

definition on_tick :: "string \<Rightarrow> bool \<Rightarrow> ('v, 'n) World \<Rightarrow> ('v, 'n) World" where
  "on_tick sessionId exited w =
     (if sessionId \<notin> stoppedByUser w \<and> \<not> exited
      then onLog info (hourglass @ '' Test is running...'') w
      else w)"

subsection \<open>The exit of the process\<close>

text \<open>
  \<open>x || d\<close> on an optional number, and the object spread \<open>{...base, ...parsed}\<close>
  on one key.
\<close>

definition or_num :: "'n js_num \<Rightarrow> 'n option \<Rightarrow> 'n \<Rightarrow> 'n" where
  "or_num nm x d = (case x of None \<Rightarrow> d | Some v \<Rightarrow> if truthy_num nm v then v else d)"

definition spread :: "'a option \<Rightarrow> 'a option \<Rightarrow> 'a option" where
  "spread base parsed = (case parsed of Some v \<Rightarrow> Some v | None \<Rightarrow> base)"

text \<open>The result object of a run that exited with code 0.\<close>

definition assemble_result :: "'n js_num \<Rightarrow> ABTestConfig \<Rightarrow> 'n ABTestResult \<Rightarrow> 'n ABTestResult" where
  "assemble_result nm config parsedResult =
     \<lparr>serverSoftware = spread None (serverSoftware parsedResult),
      serverHostname =
        spread (Some (or_str (serverHostname parsedResult) [])) (serverHostname parsedResult),
      serverPort =
        spread (Some (or_num nm (serverPort parsedResult) (num nm 80))) (serverPort parsedResult),
      documentPath =
        spread (Some (or_str (documentPath parsedResult) [])) (documentPath parsedResult),
      documentLength = spread None (documentLength parsedResult),
      concurrencyLevel =
        spread (Some (or_num nm (concurrencyLevel parsedResult) (num nm (concurrency config))))
          (concurrencyLevel parsedResult),
      timeTaken =
        spread (Some (or_num nm (timeTaken parsedResult) (num nm 0))) (timeTaken parsedResult),
      completeRequests =
        spread (Some (or_num nm (completeRequests parsedResult) (num nm 0)))
          (completeRequests parsedResult),
      failedRequests =
        spread (Some (or_num nm (failedRequests parsedResult) (num nm 0)))
          (failedRequests parsedResult),
      totalTransferred =
        spread (Some (or_num nm (totalTransferred parsedResult) (num nm 0)))
          (totalTransferred parsedResult),
      htmlTransferred =
        spread (Some (or_num nm (htmlTransferred parsedResult) (num nm 0)))
          (htmlTransferred parsedResult),
      requestsPerSecond =
        spread (Some (or_num nm (requestsPerSecond parsedResult) (num nm 0)))
          (requestsPerSecond parsedResult),
      timePerRequest =
        spread (Some (or_num nm (timePerRequest parsedResult) (num nm 0)))
          (timePerRequest parsedResult),
      timePerRequestConcurrent =
        spread (Some (or_num nm (timePerRequestConcurrent parsedResult) (num nm 0)))
          (timePerRequestConcurrent parsedResult),
      transferRate =
        spread (Some (or_num nm (transferRate parsedResult) (num nm 0)))
          (transferRate parsedResult),
      statusCodes = spread None (statusCodes parsedResult),
      successfulRequests = spread None (successfulRequests parsedResult),
      clientErrors = spread None (clientErrors parsedResult),
      serverErrors = spread None (serverErrors parsedResult),
      redirects = spread None (redirects parsedResult),
      errorSummary = spread None (errorSummary parsedResult)\<rparr>"

text \<open>The text of an exit code in a template literal: \<open>null\<close> after a signal.\<close>

definition code_text :: "int option \<Rightarrow> string" where
  "code_text code = (case code of None \<Rightarrow> ''null'' | Some c \<Rightarrow> toString c)"

text \<open>
  \<open>abProcess.on('close', ...)\<close>. Parsing and assembling the result do not throw in
  this model, so the \<open>catch\<close> of the last part has no branch; its \<open>finally\<close> is the
  cleanup after it.
\<close>

definition on_close ::
  "'n js_num \<Rightarrow> ABTestConfig \<Rightarrow> string \<Rightarrow> string option \<Rightarrow> int option
     \<Rightarrow> ('v, 'n) World \<Rightarrow> ('v, 'n) World" where
  "on_close nm config sessionId file code w =
     (let w0 = w\<lparr>run_state := (run_state w)\<lparr>pendingJsonResponse := None\<rparr>\<rparr>
      in if sessionId \<in> stoppedByUser w0 then
           (let w1 = w0\<lparr>stoppedByUser := stoppedByUser w0 - {sessionId},
                        activeProcesses := (activeProcesses w0)(sessionId := None)\<rparr>;
                w2 = onLog info ''Test stopped by user'' w1;
                w3 = cleanup_if file w2
            in w3\<lparr>settled := Some (Resolved None)\<rparr>)
         else
           (let w1 = w0\<lparr>activeProcesses := (activeProcesses w0)(sessionId := None)\<rparr>
            in if code \<noteq> Some 0 then
                 (let err = ''Apache Benchmark finished with code '' @ code_text code @ '': ''
                            @ errorOutput (run_state w1);
                      w2 = onLog error err w1
                  in w2\<lparr>settled := Some (Rejected err)\<rparr>)
               else
                 (let parsedResult = parseResults nm (output' (run_state w1));
                      res = assemble_result nm config parsedResult;
                      w2 = onLog info (''Test completed: ''
                             @ (case requestsPerSecond res of Some v \<Rightarrow> toFixed2 nm v
                                | None \<Rightarrow> [])
                             @ '' RPS'') w1;
                      w3 = w2\<lparr>settled := Some (Resolved (Some res))\<rparr>
                  in cleanup_if file w3)))"

text \<open>\<open>abProcess.on('error', ...)\<close>; \<open>msg\<close> is \<open>error.message\<close>.\<close>

definition on_error :: "string option \<Rightarrow> string \<Rightarrow> ('v, 'n) World \<Rightarrow> ('v, 'n) World" where
  "on_error file msg w =
     (let w0 = w\<lparr>run_state := (run_state w)\<lparr>pendingJsonResponse := None\<rparr>\<rparr>;
          w1 = onLog error (''Error process: '' @ msg) w0;
          w2 = cleanup_if file w1
      in w2\<lparr>settled := Some (Rejected msg)\<rparr>)"

subsection \<open>stopTest\<close>

text \<open>
  \<open>kill_throws\<close> says whether \<open>process.kill('SIGKILL')\<close> throws. The function
  returns its boolean with the new state.
\<close>

definition stopTest :: "bool \<Rightarrow> string \<Rightarrow> ('v, 'n) World \<Rightarrow> bool \<times> ('v, 'n) World" where
  "stopTest kill_throws sessionId w =
     (case activeProcesses w sessionId of
        None \<Rightarrow> (False, w)
      | Some process \<Rightarrow>
          if \<not> killed process then
            (let w1 = w\<lparr>stoppedByUser := insert sessionId (stoppedByUser w)\<rparr>
             in if kill_throws then (False, w1)
                else
                  (let w2 = w1\<lparr>kills := kills w1 @ [pid process]\<rparr>
                   in (True, w2\<lparr>activeProcesses := (activeProcesses w2)(sessionId := None)\<rparr>)))
          else (False, w))"

subsection \<open>The start of a run\<close>

text \<open>\<open>errors.join(', ')\<close>.\<close>

fun js_join :: "string list \<Rightarrow> string \<Rightarrow> string" where
  "js_join [] sep = []"
| "js_join [x] sep = x"
| "js_join (x # y # ys) sep = x @ sep @ js_join (y # ys) sep"

datatype start_error = ValidationErrors string | BuildThrown failure

definition pid_text :: "nat option \<Rightarrow> string" where
  "pid_text p = (case p of None \<Rightarrow> ''undefined'' | Some n \<Rightarrow> toString_nat n)"

text \<open>
  \<open>runTest\<close> up to the return of its promise: validation, the command, the spawn and
  the registration of the process. It either throws or gives the payload file of the
  run. \<open>error_text e\<close> is the text of a thrown error in a template literal and
  \<open>new_pid\<close> the process id of the spawned process.
\<close>

definition runTest_start ::
  "(string \<Rightarrow> bool) \<Rightarrow> 'v js_dyn \<Rightarrow> platform \<Rightarrow> nat \<Rightarrow> (failure \<Rightarrow> string) \<Rightarrow> nat option
     \<Rightarrow> ABTestConfig \<Rightarrow> string \<Rightarrow> ('v, 'n) World
     \<Rightarrow> (start_error + string option) \<times> ('v, 'n) World" where
  "runTest_start url_parses js pf now error_text new_pid config sessionId w =
     (let validationErrors = validateConfig url_parses config
      in if validationErrors \<noteq> []
         then (Inl (ValidationErrors (''Validation errors: '' @ js_join validationErrors '', '')), w)
         else
           let w1 = onLog info ''Preparing to run Apache Benchmark...'' w
           in case buildCommand js pf now config sessionId (disk w1) of
                Inl e \<Rightarrow> (Inl (BuildThrown e), onLog error (''Error start: '' @ error_text e) w1)
              | Inr (cmd, files') \<Rightarrow>
                  (let w2 = onLog info (''Command: '' @ js_join (args cmd) '' '')
                              (w1\<lparr>disk := files'\<rparr>);
                       w3 = w2\<lparr>run_state := \<lparr>output' = [], errorOutput = [], responseCount = 0,
                                               pendingJsonResponse = None\<rparr>\<rparr>;
                       w4 = onLog info (rocket @ '' Apache Benchmark started (PID: ''
                                        @ pid_text new_pid @ '')'') w3;
                       w5 = w4\<lparr>activeProcesses := (activeProcesses w4)
                                  (sessionId \<mapsto> \<lparr>pid = new_pid, killed = False\<rparr>)\<rparr>;
                       w6 = onLog info ''Apache Benchmark started...'' w5;
                       w7 = onLog info (''Running '' @ toString (requests config)
                                        @ '' requests with concurrency ''
                                        @ toString (concurrency config)) w6
                   in (Inr (dataFile cmd), w7)))"

section \<open>The session store\<close>

definition MAX_LOGS_PER_SESSION :: nat where
  "MAX_LOGS_PER_SESSION = 500"

record LogEntry =
  timestamp :: nat
  level :: LogLevel
  message :: string

datatype TestStatus = preparing | running | completed | stopped | status_error

record 'n TestSession =
  session_id :: string
  session_config :: ABTestConfig
  session_status :: TestStatus
  startTime :: nat
  endTime :: "nat option"
  session_result :: "'n ABTestResult option"
  logs :: "LogEntry list"

datatype WebSocketMessageType =
  test_start | test_progress | test_complete | test_error | log | connected | session_state
  | test_stopped

record WebSocketMessage =
  msg_type :: WebSocketMessageType
  msg_sessionId :: string
  msg_data :: LogEntry

text \<open>A subscriber connection: its \<open>readyState\<close> (\<open>WebSocket.OPEN\<close> is 1).\<close>

record WebSocketClient =
  readyState :: nat

record 'n Server =
  sessions :: "string \<rightharpoonup> 'n TestSession"
  websocketClients :: "string \<rightharpoonup> WebSocketClient"

text \<open>
  \<open>broadcastToSession\<close>: the messages handed to \<open>client.send\<close> (an error of
  \<open>send\<close> is caught and only printed).
\<close>

definition broadcastToSession :: "'n Server \<Rightarrow> string \<Rightarrow> WebSocketMessage \<Rightarrow> WebSocketMessage list" where
  "broadcastToSession srv sessionId msg =
     (case websocketClients srv sessionId of
        Some client \<Rightarrow> if readyState client = 1 then [msg] else []
      | None \<Rightarrow> [])"

text \<open>\<open>xs.slice(-n)\<close>.\<close>

definition slice_last :: "nat \<Rightarrow> 'a list \<Rightarrow> 'a list" where
  "slice_last n xs = drop (length xs - n) xs"

text \<open>\<open>addLogToSession\<close>; \<open>now\<close> is \<open>new Date()\<close>.\<close>

definition addLogToSession ::
  "nat \<Rightarrow> string \<Rightarrow> LogLevel \<Rightarrow> string \<Rightarrow> 'n Server \<Rightarrow> 'n Server \<times> WebSocketMessage list" where
  "addLogToSession now sessionId lvl msg srv =
     (case sessions srv sessionId of
        None \<Rightarrow> (srv, [])
      | Some session \<Rightarrow>
          (let logEntry = \<lparr>timestamp = now, level = lvl, message = msg\<rparr>;
               pushed = logs session @ [logEntry];
               kept = (if length pushed > MAX_LOGS_PER_SESSION
                       then slice_last MAX_LOGS_PER_SESSION pushed else pushed);
               srv' = srv\<lparr>sessions := (sessions srv)(sessionId \<mapsto> session\<lparr>logs := kept\<rparr>)\<rparr>
           in (srv', broadcastToSession srv' sessionId
                       \<lparr>msg_type = log, msg_sessionId = sessionId, msg_data = logEntry\<rparr>)))"

text \<open>A sequence of calls of \<open>addLogToSession\<close>, each with its time, session, level and text.\<close>

fun addLogs :: "(nat \<times> string \<times> LogLevel \<times> string) list \<Rightarrow> 'n Server \<Rightarrow> 'n Server" where
  "addLogs [] srv = srv"
| "addLogs ((now, sessionId, lvl, msg) # calls) srv =
     addLogs calls (fst (addLogToSession now sessionId lvl msg srv))"

text \<open>The entries that a sequence of calls makes for one session.\<close>

definition entries_for :: "string \<Rightarrow> (nat \<times> string \<times> LogLevel \<times> string) list \<Rightarrow> LogEntry list" where
  "entries_for sessionId calls =
     map (\<lambda>(now, sid, lvl, msg). \<lparr>timestamp = now, level = lvl, message = msg\<rparr>)
       (filter (\<lambda>(now, sid, lvl, msg). sid = sessionId) calls)"

section \<open>Sequences of callbacks\<close>

text \<open>
  The callbacks of one run and the stop request, as events: a stdout line, a stderr
  chunk, a heartbeat tick (with whether the process has exited), the close of the process
  (with its exit code), a process error (with its message), and a call of \<open>stopTest\<close>
  (with whether the kill throws).
\<close>

datatype event =
  StdoutLine string | StderrData string | Tick bool | Close "int option" | ProcError string
  | Stop bool

text \<open>The constants of a run: the configuration, the session and the payload file.\<close>

record Run =
  run_config :: ABTestConfig
  run_session :: string
  run_file :: "string option"

definition run_verbosity :: "Run \<Rightarrow> int" where
  "run_verbosity r = (case verbosity (run_config r) of Some v \<Rightarrow> v | None \<Rightarrow> 2)"

fun handle :: "'v js_dyn \<Rightarrow> 'n js_num \<Rightarrow> Run \<Rightarrow> ('v, 'n) World \<Rightarrow> event \<Rightarrow> ('v, 'n) World" where
  "handle js nm r w (StdoutLine line) = on_stdout_line js (run_verbosity r) (run_session r) line w"
| "handle js nm r w (StderrData chunk) = on_stderr_data (run_session r) chunk w"
| "handle js nm r w (Tick exited) = on_tick (run_session r) exited w"
| "handle js nm r w (Close code) = on_close nm (run_config r) (run_session r) (run_file r) code w"
| "handle js nm r w (ProcError msg) = on_error (run_file r) msg w"
| "handle js nm r w (Stop kill_throws) = snd (stopTest kill_throws (run_session r) w)"

fun is_stream_event :: "event \<Rightarrow> bool" where
  "is_stream_event (StdoutLine line) = True"
| "is_stream_event (StderrData chunk) = True"
| "is_stream_event (Tick exited) = True"
| "is_stream_event e = False"

section \<open>Example platforms\<close>

text \<open>
  Platforms for the concrete evaluations below. On \<open>unparsed_js\<close> a value is its
  text and no text parses: \<open>JSON.parse\<close> and \<open>eval\<close> throw, as they do on the bodies
  and lines of the examples. On \<open>nan_num\<close> a number is an integer or NaN (\<open>None\<close>)
  and the parsers give NaN; the examples have no labelled line. \<open>tmp_platform\<close>
  joins paths with a slash under \<open>/tmp\<close>, and every path can be written.
\<close>

definition unparsed_js :: "string js_dyn" where
  "unparsed_js =
     \<lparr>JSON_parse = (\<lambda>s. None), js_eval = (\<lambda>s. None), JSON_stringify = (\<lambda>v. Some v),
      js_String = (\<lambda>v. Some v), is_object = (\<lambda>v. False), Object_entries = (\<lambda>v. None),
      URLSearchParams_toString = (\<lambda>ps. []), get_prop = (\<lambda>v k. []), truthy = (\<lambda>v. v \<noteq> []),
      of_str = (\<lambda>s. s), of_num = toString, template = (\<lambda>v. v), ge_num = (\<lambda>v n. False)\<rparr>"

definition nan_num :: "int option js_num" where
  "nan_num =
     \<lparr>parseInt = (\<lambda>s. None), parseInt10 = (\<lambda>s. None), parseFloat = (\<lambda>s. None), num = Some,
      truthy_num = (\<lambda>v. v \<noteq> None \<and> v \<noteq> Some 0),
      toFixed2 = (\<lambda>v. case v of None \<Rightarrow> ''NaN'' | Some i \<Rightarrow> toString i @ ''.00'')\<rparr>"

definition tmp_platform :: platform where
  "tmp_platform =
     \<lparr>tmpdir = ''/tmp'', path_join = (\<lambda>d f. d @ ''/'' @ f), writable = (\<lambda>f. True)\<rparr>"

definition sample_config :: ABTestConfig where
  "sample_config =
     \<lparr>url = ''http://localhost:8080/'', requests = 10, concurrency = 2, timelimit = None,
      keepalive = None, method' = GET, headers = None, cookies = None, dataBody = None,
      contentType = None, timeout = None, verbosity = Some 1, authUsername = None,
      authPassword = None, proxyUrl = None, acceptVaryingLength = None\<rparr>"

definition empty_world :: "(string, int option) World" where
  "empty_world =
     \<lparr>activeProcesses = Map.empty, stoppedByUser = {},
      run_state = \<lparr>output' = [], errorOutput = [], responseCount = 0, pendingJsonResponse = None\<rparr>,
      disk = Map.empty, unlinks = [], emitted = [], kills = [], settled = None\<rparr>"

definition sample_run :: Run where
  "sample_run = \<lparr>run_config = sample_config, run_session = ''s1'', run_file = None\<rparr>"

definition live_world :: "(string, int option) World" where
  "live_world =
     empty_world\<lparr>activeProcesses := [''s1'' \<mapsto> \<lparr>pid = Some 42, killed = False\<rparr>]\<rparr>"

definition body_config :: ABTestConfig where
  "body_config = sample_config\<lparr>dataBody := Some ''a b'', contentType := Some ''text/plain''\<rparr>"

definition full_session :: "(int option) TestSession" where
  "full_session =
     \<lparr>session_id = ''s1'', session_config = sample_config, session_status = running,
      startTime = 0, endTime = None, session_result = None,
      logs = replicate 500 \<lparr>timestamp = 0, level = info, message = ''old''\<rparr>\<rparr>"

definition full_server :: "(int option) Server" where
  "full_server = \<lparr>sessions = [''s1'' \<mapsto> full_session], websocketClients = Map.empty\<rparr>"

definition post_config :: ABTestConfig where
  "post_config = sample_config\<lparr>method' := POST, dataBody := Some ''a b''\<rparr>"

definition three_status_lines :: string where
  "three_status_lines =
     ''HTTP/1.1 200'' @ [CHR 0x0A] @ ''HTTP/1.1 200'' @ [CHR 0x0A] @ ''HTTP/1.1 404''"

text \<open>The histogram-derived fields of a result.\<close>

definition histogram_of :: "'n ABTestResult \<Rightarrow> _" where
  "histogram_of r = (statusCodes r, successfulRequests r, clientErrors r, serverErrors r,
                     redirects r, errorSummary r)"

section \<open>Properties of validation and of the command\<close>

lemma toString_nat_digits: "set (toString_nat n) \<subseteq> set ''0123456789''"
proof (induction n rule: toString_nat.induct)
  case (1 n)
  have d: "digit_char k \<in> set ''0123456789''" if "k < 10" for k
  proof -
    from that have "k \<in> {0,1,2,3,4,5,6,7,8,9}" by auto
    then show ?thesis unfolding digit_char_def by auto
  qed
  show ?case
  proof (cases "n < 10")
    case True
    then show ?thesis using d [of n] by (subst toString_nat.simps) simp
  next
    case False
    then have "set (toString_nat (n div 10)) \<subseteq> set ''0123456789''" using 1 by simp
    moreover have "digit_char (n mod 10) \<in> set ''0123456789''" by (rule d) simp
    ultimately show ?thesis using False by (subst toString_nat.simps) simp
  qed
qed

lemma toString_not_flag: "toString i \<noteq> ''-v''"
proof
  assume a: "toString i = ''-v''"
  show False
  proof (cases "i < 0")
    case True
    with a have "toString_nat (nat (- i)) = ''v''" by (simp add: toString_def)
    then have "CHR ''v'' \<in> set (toString_nat (nat (- i)))" by simp
    with toString_nat_digits show False by fastforce
  next
    case False
    with a have "toString_nat (nat i) = ''-v''" by (simp add: toString_def)
    then have "CHR ''v'' \<in> set (toString_nat (nat i))" by simp
    with toString_nat_digits show False by fastforce
  qed
qed

lemma push_int_no_v: "flag \<noteq> ''-v'' \<Longrightarrow> ''-v'' \<notin> set (push_int flag x)"
proof (cases x)
  case None
  then show ?thesis by simp
next
  case (Some n)
  assume "flag \<noteq> ''-v''"
  moreover have "''-v'' \<noteq> toString n" using toString_not_flag [of n] by simp
  ultimately show ?thesis using Some by auto
qed

lemma method_name_not_v: "method_name m \<noteq> ''-v''"
  by (cases m) simp_all

lemma no_v_before: "''-v'' \<notin> set (args_before_verbosity config)"
proof -
  have a: "''-v'' \<noteq> toString i" for i using toString_not_flag [of i] by simp
  have b: "''-v'' \<noteq> method_name m" for m using method_name_not_v [of m] by simp
  show ?thesis
    unfolding args_before_verbosity_def
    by (simp add: a b push_int_no_v)
qed

lemma buildCommand_args_shape:
  assumes "buildCommand js pf now config sessionId fs = Inr (r, fs')"
  shows "\<exists>post. args r = args_before_verbosity config
                          @ [''-v'', toString (verbosity_arg config)] @ post"
proof -
  from assms obtain a1 a2 where
    "args r = (args_before_verbosity config @ [''-v'', toString (verbosity_arg config)]
               @ args_after_verbosity config) @ a1 @ a2 @ [url config]"
    unfolding buildCommand_def Let_def
    by (auto split: sum.splits prod.splits)
  then show ?thesis by simp
qed

lemma toString_small: "toString 10 = ''10''" "toString 2 = ''2''" "toString 3 = ''3''"
  by code_simp+

lemma sample_command:
  "buildCommand unparsed_js tmp_platform 0 sample_config ''s1'' Map.empty
     = Inr (\<lparr>args = [''ab'', ''-n'', ''10'', ''-c'', ''2'', ''-v'', ''3'',
                     ''http://localhost:8080/''],
             dataFile = None\<rparr>, Map.empty)"
  by (simp add: buildCommand_def sample_config_def args_before_verbosity_def
        args_after_verbosity_def verbosity_arg_def toString_small)

text \<open>
  C6. Validation returns every violated constraint, not only the first: each of the
  seven messages is in the list exactly when its constraint is violated, no message is
  listed twice, and when the concurrency exceeds the request count the list has
  exactly one error about it.
\<close>

theorem validateConfig_lists_all_violations:
  "(''URL is required'' \<in> set (validateConfig url_parses config) \<longleftrightarrow> url config = [])
 \<and> (''Requests must be greater than 0'' \<in> set (validateConfig url_parses config)
      \<longleftrightarrow> requests config \<le> 0)
 \<and> (''Level concurrency must be greater than 0'' \<in> set (validateConfig url_parses config)
      \<longleftrightarrow> concurrency config \<le> 0)
 \<and> (''Level concurrency must be less than or equal to requests''
        \<in> set (validateConfig url_parses config)
      \<longleftrightarrow> concurrency config > requests config)
 \<and> (''POST method requires data in dataBody'' \<in> set (validateConfig url_parses config)
      \<longleftrightarrow> method' config = POST \<and> \<not> truthy_str (dataBody config))
 \<and> (''PUT method requires data in dataBody'' \<in> set (validateConfig url_parses config)
      \<longleftrightarrow> method' config = PUT \<and> \<not> truthy_str (dataBody config))
 \<and> (''Invalid URL'' \<in> set (validateConfig url_parses config) \<longleftrightarrow> \<not> url_parses (url config))
 \<and> distinct (validateConfig url_parses config)
 \<and> (concurrency config > requests config \<longrightarrow>
      count_list (validateConfig url_parses config)
        ''Level concurrency must be less than or equal to requests'' = 1)"
proof -
  have 1: "''URL is required'' \<in> set (validateConfig url_parses config) \<longleftrightarrow> url config = []"
    unfolding validateConfig_def by simp
  have 2: "''Requests must be greater than 0'' \<in> set (validateConfig url_parses config)
      \<longleftrightarrow> requests config \<le> 0"
    unfolding validateConfig_def by simp
  have 3: "''Level concurrency must be greater than 0'' \<in> set (validateConfig url_parses config)
      \<longleftrightarrow> concurrency config \<le> 0"
    unfolding validateConfig_def by simp
  have 4: "''Level concurrency must be less than or equal to requests''
        \<in> set (validateConfig url_parses config)
      \<longleftrightarrow> concurrency config > requests config"
    unfolding validateConfig_def by simp
  have 5: "''POST method requires data in dataBody'' \<in> set (validateConfig url_parses config)
      \<longleftrightarrow> method' config = POST \<and> \<not> truthy_str (dataBody config)"
    unfolding validateConfig_def by simp
  have 6: "''PUT method requires data in dataBody'' \<in> set (validateConfig url_parses config)
      \<longleftrightarrow> method' config = PUT \<and> \<not> truthy_str (dataBody config)"
    unfolding validateConfig_def by simp
  have 7: "''Invalid URL'' \<in> set (validateConfig url_parses config)
      \<longleftrightarrow> \<not> url_parses (url config)"
    unfolding validateConfig_def by simp
  have 8: "distinct (validateConfig url_parses config)"
    unfolding validateConfig_def by auto
  have 9: "concurrency config > requests config \<longrightarrow>
      count_list (validateConfig url_parses config)
        ''Level concurrency must be less than or equal to requests'' = 1"
    unfolding validateConfig_def by simp
  from 1 2 3 4 5 6 7 8 9 show ?thesis by blast
qed

theorem validateConfig_lists_all_violations_witness:
  "validateConfig (\<lambda>u. u \<noteq> []) (sample_config\<lparr>url := [], concurrency := 20\<rparr>)
     = [''URL is required'', ''Level concurrency must be less than or equal to requests'',
        ''Invalid URL'']
   \<and> concurrency (sample_config\<lparr>url := [], concurrency := 20\<rparr>)
       > requests (sample_config\<lparr>url := [], concurrency := 20\<rparr>)
   \<and> count_list (validateConfig (\<lambda>u. u \<noteq> []) (sample_config\<lparr>url := [], concurrency := 20\<rparr>))
        ''Level concurrency must be less than or equal to requests'' = 1"
proof -
  have gt: "concurrency (sample_config\<lparr>url := [], concurrency := 20\<rparr>)
             > requests (sample_config\<lparr>url := [], concurrency := 20\<rparr>)"
    by (simp add: sample_config_def)
  have ev: "validateConfig (\<lambda>u. u \<noteq> []) (sample_config\<lparr>url := [], concurrency := 20\<rparr>)
     = [''URL is required'', ''Level concurrency must be less than or equal to requests'',
        ''Invalid URL'']"
    by (simp add: validateConfig_def sample_config_def)
  from validateConfig_lists_all_violations
         [of "\<lambda>u. u \<noteq> []" "sample_config\<lparr>url := [], concurrency := 20\<rparr>"] gt
  have "count_list (validateConfig (\<lambda>u. u \<noteq> []) (sample_config\<lparr>url := [], concurrency := 20\<rparr>))
        ''Level concurrency must be less than or equal to requests'' = 1"
    by blast
  with gt ev show ?thesis by blast
qed

text \<open>
  C7. Whenever the command is built, its argument vector holds the flag \<open>-v\<close> followed
  by the text of a number that is at least 3 and at least the verbosity the caller
  asked for; no \<open>-v\<close> stands before it.
\<close>

theorem buildCommand_verbosity_at_least_3:
  assumes "buildCommand js pf now config sessionId fs = Inr (r, fs')"
  shows "\<exists>pre post v. args r = pre @ [''-v'', toString v] @ post \<and> ''-v'' \<notin> set pre
           \<and> 3 \<le> v \<and> (\<forall>w. verbosity config = Some w \<longrightarrow> w \<le> v)"
proof -
  from buildCommand_args_shape [OF assms] obtain post where
    "args r = args_before_verbosity config @ [''-v'', toString (verbosity_arg config)] @ post"
    by blast
  moreover have "3 \<le> verbosity_arg config"
    and "\<forall>w. verbosity config = Some w \<longrightarrow> w \<le> verbosity_arg config"
    unfolding verbosity_arg_def by (auto split: option.splits)
  ultimately show ?thesis using no_v_before by blast
qed

theorem buildCommand_verbosity_at_least_3_witness:
  "buildCommand unparsed_js tmp_platform 0 sample_config ''s1'' Map.empty
     = Inr (\<lparr>args = [''ab'', ''-n'', ''10'', ''-c'', ''2'', ''-v'', ''3'',
                     ''http://localhost:8080/''],
             dataFile = None\<rparr>, Map.empty)
   \<and> verbosity sample_config = Some 1
   \<and> (\<exists>pre post v. [''ab'', ''-n'', ''10'', ''-c'', ''2'', ''-v'', ''3'', ''http://localhost:8080/'']
          = pre @ [''-v'', toString v] @ post \<and> ''-v'' \<notin> set pre \<and> 3 \<le> v \<and> 1 \<le> v)"
proof -
  have v: "verbosity sample_config = Some 1" by (simp add: sample_config_def)
  from buildCommand_verbosity_at_least_3 [OF sample_command] v sample_command
  show ?thesis by simp
qed

lemma toString_nat_0: "toString_nat 0 = ''0''"
  by code_simp

lemma body_transform: "transformDataBody unparsed_js ''a b'' ctype = Inr ''a b''"
  by (simp add: transformDataBody_def unparsed_js_def)

text \<open>
  C10. For a GET configuration with a non-empty body, \<open>buildCommand\<close> transforms the
  body, writes it to the payload file and pushes \<open>-p\<close>, the file and (when a content
  type is set) \<open>-T\<close> with the content type before the URL; it fails exactly when the
  transformation throws or the file cannot be written. With the method changed to POST
  it does the same, the arguments differing only in the method flag. Validation of the
  GET configuration does not depend on the body.
\<close>

theorem buildCommand_GET_payload:
  assumes "method' config = GET" and "dataBody config = Some body" and "body \<noteq> []"
  shows "buildCommand js pf now config sessionId fs =
          (let file = path_join pf (tmpdir pf)
                        (''ab-'' @ sessionId @ ''-'' @ toString_nat now @ ''.txt'')
           in case transformDataBody js body (contentType config) of
                Inl e \<Rightarrow> Inl e
              | Inr transformed \<Rightarrow>
                  if writable pf file
                  then Inr (\<lparr>args = args_before_verbosity config
                                   @ [''-v'', toString (verbosity_arg config)]
                                   @ args_after_verbosity config
                                   @ [''-p'', file] @ push_str ''-T'' (contentType config)
                                   @ [url config],
                             dataFile = Some file\<rparr>, fs(file \<mapsto> transformed))
                  else Inl Thrown)
       \<and> buildCommand js pf now (config\<lparr>method' := POST\<rparr>) sessionId fs =
          (let file = path_join pf (tmpdir pf)
                        (''ab-'' @ sessionId @ ''-'' @ toString_nat now @ ''.txt'')
           in case transformDataBody js body (contentType config) of
                Inl e \<Rightarrow> Inl e
              | Inr transformed \<Rightarrow>
                  if writable pf file
                  then Inr (\<lparr>args = args_before_verbosity (config\<lparr>method' := POST\<rparr>)
                                   @ [''-v'', toString (verbosity_arg config)]
                                   @ args_after_verbosity config
                                   @ [''-p'', file] @ push_str ''-T'' (contentType config)
                                   @ [url config],
                             dataFile = Some file\<rparr>, fs(file \<mapsto> transformed))
                  else Inl Thrown)
       \<and> validateConfig url_parses (config\<lparr>dataBody := other\<rparr>) = validateConfig url_parses config"
proof -
  have 1: "buildCommand js pf now config sessionId fs = (let file = path_join pf (tmpdir pf)
                        (''ab-'' @ sessionId @ ''-'' @ toString_nat now @ ''.txt'')
           in case transformDataBody js body (contentType config) of
                Inl e \<Rightarrow> Inl e
              | Inr transformed \<Rightarrow>
                  if writable pf file
                  then Inr (\<lparr>args = args_before_verbosity config
                                   @ [''-v'', toString (verbosity_arg config)]
                                   @ args_after_verbosity config
                                   @ [''-p'', file] @ push_str ''-T'' (contentType config)
                                   @ [url config],
                             dataFile = Some file\<rparr>, fs(file \<mapsto> transformed))
                  else Inl Thrown)"
    using assms
    by (simp add: buildCommand_def push_payload_def createTempDataFile_def Let_def
             split: sum.splits)
  have 2: "buildCommand js pf now (config\<lparr>method' := POST\<rparr>) sessionId fs =
          (let file = path_join pf (tmpdir pf)
                        (''ab-'' @ sessionId @ ''-'' @ toString_nat now @ ''.txt'')
           in case transformDataBody js body (contentType config) of
                Inl e \<Rightarrow> Inl e
              | Inr transformed \<Rightarrow>
                  if writable pf file
                  then Inr (\<lparr>args = args_before_verbosity (config\<lparr>method' := POST\<rparr>)
                                   @ [''-v'', toString (verbosity_arg config)]
                                   @ args_after_verbosity config
                                   @ [''-p'', file] @ push_str ''-T'' (contentType config)
                                   @ [url config],
                             dataFile = Some file\<rparr>, fs(file \<mapsto> transformed))
                  else Inl Thrown)"
    using assms
    by (simp add: buildCommand_def push_payload_def createTempDataFile_def Let_def
             verbosity_arg_def args_after_verbosity_def
             split: sum.splits)
  have 3: "validateConfig url_parses (config\<lparr>dataBody := other\<rparr>) = validateConfig url_parses config"
    using assms by (simp add: validateConfig_def)
  from 1 2 3 show ?thesis by blast
qed

theorem buildCommand_GET_payload_witness:
  "method' body_config = GET \<and> dataBody body_config = Some ''a b''
   \<and> buildCommand unparsed_js tmp_platform 0 body_config ''s1'' Map.empty
       = Inr (\<lparr>args = [''ab'', ''-n'', ''10'', ''-c'', ''2'', ''-v'', ''3'',
                       ''-p'', ''/tmp/ab-s1-0.txt'', ''-T'', ''text/plain'',
                       ''http://localhost:8080/''],
               dataFile = Some ''/tmp/ab-s1-0.txt''\<rparr>,
              [''/tmp/ab-s1-0.txt'' \<mapsto> ''a b''])
   \<and> buildCommand unparsed_js tmp_platform 0 (body_config\<lparr>method' := POST\<rparr>) ''s1'' Map.empty
       = Inr (\<lparr>args = [''ab'', ''-n'', ''10'', ''-c'', ''2'', ''-m'', ''POST'', ''-v'', ''3'',
                       ''-p'', ''/tmp/ab-s1-0.txt'', ''-T'', ''text/plain'',
                       ''http://localhost:8080/''],
               dataFile = Some ''/tmp/ab-s1-0.txt''\<rparr>,
              [''/tmp/ab-s1-0.txt'' \<mapsto> ''a b''])
   \<and> validateConfig (\<lambda>u. True) (body_config\<lparr>dataBody := None\<rparr>)
       = validateConfig (\<lambda>u. True) body_config"
proof -
  have a: "method' body_config = GET" and b: "dataBody body_config = Some ''a b''"
    and c: "''a b'' \<noteq> []"
    by (simp_all add: body_config_def sample_config_def)
  from buildCommand_GET_payload [OF a b c, of unparsed_js tmp_platform 0 "''s1''" Map.empty
         "\<lambda>u. True" None] a b
  show ?thesis
    by (simp add: body_transform body_config_def sample_config_def tmp_platform_def
          args_before_verbosity_def args_after_verbosity_def verbosity_arg_def
          toString_small toString_nat_0 Let_def)
qed

section \<open>Properties of the result parser\<close>

lemma bump_not_Nil: "bump k codes \<noteq> []"
  by (cases codes) (auto split: if_splits)

lemma match_status_includes: "match_status t \<noteq> None \<Longrightarrow> js_includes t ''HTTP/1.''"
  unfolding match_status_def js_includes_def
proof (induction t)
  case Nil
  then show ?case by (simp add: status_at_def js_startsWith_def)
next
  case (Cons c cs)
  show ?case
  proof (cases "js_startsWith (c # cs) ''HTTP/1.''")
    case True
    then show ?thesis by simp
  next
    case False
    then have "status_at (c # cs) = None" by (simp add: status_at_def)
    with Cons.prems have "find_first status_at cs \<noteq> None" by simp
    with Cons.IH have "js_indexOf cs ''HTTP/1.'' \<noteq> None" by simp
    with False show ?thesis by simp
  qed
qed

lemma scan_status_eq:
  "scan_status t codes = (case match_status t of Some c \<Rightarrow> bump c codes | None \<Rightarrow> codes)"
  using match_status_includes [of t] by (auto simp add: scan_status_def split: option.splits)

lemma scan_status_Nil: "scan_status t codes = [] \<longleftrightarrow> codes = [] \<and> match_status t = None"
  by (auto simp add: scan_status_eq bump_not_Nil split: option.splits)

lemma scan_fold_Nil:
  "foldl (\<lambda>c l. scan_status (js_trim l) c) codes lines = []
     \<longleftrightarrow> codes = [] \<and> \<not> list_ex (\<lambda>l. match_status (js_trim l) \<noteq> None) lines"
proof (induction lines arbitrary: codes)
  case Nil
  then show ?case by simp
next
  case (Cons l lines)
  show ?case by (auto simp add: Cons.IH scan_status_Nil)
qed

lemma foldl_parse_line:
  "foldl (parse_line nm) (r, codes) lines
     = (foldl (\<lambda>r l. parse_labels nm (js_trim l) r) r lines,
        foldl (\<lambda>c l. scan_status (js_trim l) c) codes lines)"
  by (induction lines arbitrary: r codes) (simp_all add: parse_line_def Let_def)

lemma label_steps_keep:
  "step \<in> set (label_steps nm t) \<Longrightarrow> histogram_of (step x) = histogram_of x"
  unfolding label_steps_def histogram_of_def if_then_def by auto

lemma steps_fold_keep:
  "(\<And>step x. step \<in> set steps \<Longrightarrow> histogram_of (step x) = histogram_of x)
     \<Longrightarrow> histogram_of (foldl (\<lambda>r step. step r) r steps) = histogram_of r"
  by (induction steps arbitrary: r) simp_all

lemma parse_labels_keep: "histogram_of (parse_labels nm t r) = histogram_of r"
  unfolding parse_labels_def by (rule steps_fold_keep) (rule label_steps_keep)

lemma labels_fold_keep:
  "histogram_of (foldl (\<lambda>r l. parse_labels nm (js_trim l) r) r lines) = histogram_of r"
  by (induction lines arbitrary: r) (simp_all add: parse_labels_keep)

text \<open>
  The scan finds an occurrence in a line exactly when the line has the text
  \<open>HTTP/1.\<close>, then \<open>0\<close> or \<open>1\<close>, a space and three decimal digits.
\<close>

lemma find_first_iff:
  "find_first m s \<noteq> None \<longleftrightarrow> (\<exists>pre suf. s = pre @ suf \<and> m suf \<noteq> None)"
proof (induction s)
  case Nil
  then show ?case by simp
next
  case (Cons c cs)
  have "(\<exists>pre suf. c # cs = pre @ suf \<and> m suf \<noteq> None)
          \<longleftrightarrow> m (c # cs) \<noteq> None \<or> (\<exists>pre suf. cs = pre @ suf \<and> m suf \<noteq> None)"
  proof
    assume "\<exists>pre suf. c # cs = pre @ suf \<and> m suf \<noteq> None"
    then obtain pre suf where ps: "c # cs = pre @ suf" "m suf \<noteq> None" by blast
    show "m (c # cs) \<noteq> None \<or> (\<exists>pre suf. cs = pre @ suf \<and> m suf \<noteq> None)"
    proof (cases pre)
      case Nil
      with ps show ?thesis by simp
    next
      case (Cons p pre')
      with ps have "cs = pre' @ suf" by simp
      with ps(2) show ?thesis by blast
    qed
  next
    assume "m (c # cs) \<noteq> None \<or> (\<exists>pre suf. cs = pre @ suf \<and> m suf \<noteq> None)"
    then show "\<exists>pre suf. c # cs = pre @ suf \<and> m suf \<noteq> None"
    proof
      assume "m (c # cs) \<noteq> None"
      then have "c # cs = [] @ (c # cs) \<and> m (c # cs) \<noteq> None" by simp
      then show ?thesis by blast
    next
      assume "\<exists>pre suf. cs = pre @ suf \<and> m suf \<noteq> None"
      then obtain pre suf where "cs = pre @ suf" "m suf \<noteq> None" by blast
      then have "c # cs = (c # pre) @ suf \<and> m suf \<noteq> None" by simp
      then show ?thesis by blast
    qed
  qed
  with Cons.IH show ?case by (auto split: option.splits)
qed

lemma status_at_iff:
  "status_at s \<noteq> None \<longleftrightarrow>
     (\<exists>v d1 d2 d3 post. s = ''HTTP/1.'' @ [v, CHR '' '', d1, d2, d3] @ post
        \<and> (v = CHR ''0'' \<or> v = CHR ''1'') \<and> is_digit d1 \<and> is_digit d2 \<and> is_digit d3)"
proof
  assume a: "status_at s \<noteq> None"
  then have "js_startsWith s ''HTTP/1.''"
    by (auto simp add: status_at_def split: if_splits)
  then have "take (length ''HTTP/1.'') s = ''HTTP/1.''"
    unfolding js_startsWith_def .
  moreover have "length ''HTTP/1.'' = 7" by simp
  ultimately have p: "take 7 s = ''HTTP/1.''" by (simp only:)
  from a obtain v sp d1 d2 d3 post where d: "drop 7 s = v # sp # d1 # d2 # d3 # post"
    and c: "(v = CHR ''0'' \<or> v = CHR ''1'')" "sp = CHR '' ''" "is_digit d1" "is_digit d2" "is_digit d3"
    by (auto simp add: status_at_def split: if_splits list.splits)
  have "s = take 7 s @ drop 7 s" by simp
  with p d c have "s = ''HTTP/1.'' @ [v, CHR '' '', d1, d2, d3] @ post" by simp
  with c show "\<exists>v d1 d2 d3 post. s = ''HTTP/1.'' @ [v, CHR '' '', d1, d2, d3] @ post
        \<and> (v = CHR ''0'' \<or> v = CHR ''1'') \<and> is_digit d1 \<and> is_digit d2 \<and> is_digit d3"
    by blast
next
  assume "\<exists>v d1 d2 d3 post. s = ''HTTP/1.'' @ [v, CHR '' '', d1, d2, d3] @ post
        \<and> (v = CHR ''0'' \<or> v = CHR ''1'') \<and> is_digit d1 \<and> is_digit d2 \<and> is_digit d3"
  then obtain v d1 d2 d3 post where "s = ''HTTP/1.'' @ [v, CHR '' '', d1, d2, d3] @ post"
    "v = CHR ''0'' \<or> v = CHR ''1''" "is_digit d1" "is_digit d2" "is_digit d3" by blast
  then show "status_at s \<noteq> None"
    by (auto simp add: status_at_def js_startsWith_def)
qed

lemma match_status_iff:
  "match_status s \<noteq> None \<longleftrightarrow>
     (\<exists>pre v d1 d2 d3 post. s = pre @ ''HTTP/1.'' @ [v, CHR '' '', d1, d2, d3] @ post
        \<and> (v = CHR ''0'' \<or> v = CHR ''1'') \<and> is_digit d1 \<and> is_digit d2 \<and> is_digit d3)"
  unfolding match_status_def find_first_iff status_at_iff by blast

text \<open>
  C4. When no line of the text has an occurrence of the status pattern, the result of
  \<open>parseResults\<close> has none of the keys \<open>statusCodes\<close>, \<open>successfulRequests\<close>,
  \<open>clientErrors\<close>, \<open>serverErrors\<close>, \<open>redirects\<close> and \<open>errorSummary\<close>; when
  some line has one, it has all of them.
\<close>

theorem histogram_fields_iff_status_seen:
  "(\<not> list_ex (\<lambda>line. match_status (js_trim line) \<noteq> None) (js_split out [CHR 0x0A])
      \<longrightarrow> statusCodes (parseResults nm out) = None
        \<and> successfulRequests (parseResults nm out) = None
        \<and> clientErrors (parseResults nm out) = None
        \<and> serverErrors (parseResults nm out) = None
        \<and> redirects (parseResults nm out) = None
        \<and> errorSummary (parseResults nm out) = None)
 \<and> (list_ex (\<lambda>line. match_status (js_trim line) \<noteq> None) (js_split out [CHR 0x0A])
      \<longrightarrow> statusCodes (parseResults nm out) \<noteq> None
        \<and> successfulRequests (parseResults nm out) \<noteq> None
        \<and> clientErrors (parseResults nm out) \<noteq> None
        \<and> serverErrors (parseResults nm out) \<noteq> None
        \<and> redirects (parseResults nm out) \<noteq> None
        \<and> errorSummary (parseResults nm out) \<noteq> None)"
proof -
  let ?lines = "js_split out [CHR 0x0A]"
  let ?r = "foldl (\<lambda>r l. parse_labels nm (js_trim l) r) (empty_result :: 'a ABTestResult) ?lines"
  let ?codes = "foldl (\<lambda>c l. scan_status (js_trim l) c) [] ?lines"
  have fold: "foldl (parse_line nm) (empty_result, []) ?lines = (?r, ?codes)"
    by (rule foldl_parse_line)
  have "histogram_of ?r = histogram_of (empty_result :: 'a ABTestResult)"
    by (rule labels_fold_keep)
  then have absent: "statusCodes ?r = None" "successfulRequests ?r = None" "clientErrors ?r = None"
    "serverErrors ?r = None" "redirects ?r = None" "errorSummary ?r = None"
    by (simp_all add: histogram_of_def empty_result_def)
  have seen: "?codes = [] \<longleftrightarrow> \<not> list_ex (\<lambda>l. match_status (js_trim l) \<noteq> None) ?lines"
    by (simp add: scan_fold_Nil)
  show ?thesis
  proof (cases "?codes = []")
    case True
    then have "parseResults nm out = ?r" by (simp add: parseResults_def fold)
    with absent seen True show ?thesis by simp
  next
    case False
    then have "statusCodes (parseResults nm out) \<noteq> None
        \<and> successfulRequests (parseResults nm out) \<noteq> None
        \<and> clientErrors (parseResults nm out) \<noteq> None
        \<and> serverErrors (parseResults nm out) \<noteq> None
        \<and> redirects (parseResults nm out) \<noteq> None
        \<and> errorSummary (parseResults nm out) \<noteq> None"
      by (simp add: parseResults_def fold split: prod.splits)
    with seen False show ?thesis by simp
  qed
qed

lemma three_lines_split:
  "js_split three_status_lines [CHR 0x0A] = [''HTTP/1.1 200'', ''HTTP/1.1 200'', ''HTTP/1.1 404'']"
  by (simp add: three_status_lines_def js_split.simps js_startsWith_def)

lemma status_line_trim:
  "js_trim ''HTTP/1.1 200'' = ''HTTP/1.1 200''" "js_trim ''HTTP/1.1 404'' = ''HTTP/1.1 404''"
  by (simp_all add: js_trim_def is_space_def)

lemma status_line_match:
  "match_status ''HTTP/1.1 200'' = Some ''200''" "match_status ''HTTP/1.1 404'' = Some ''404''"
  by (simp_all add: match_status_def status_at_def js_startsWith_def is_digit_def)

lemma status_line_includes:
  "js_includes ''HTTP/1.1 200'' ''HTTP/1.'' " "js_includes ''HTTP/1.1 404'' ''HTTP/1.''"
  by (simp_all add: js_includes_def js_startsWith_def)

lemma status_line_labels:
  "parse_labels nm ''HTTP/1.1 200'' r = r" "parse_labels nm ''HTTP/1.1 404'' r = r"
  by (simp_all add: parse_labels_def label_steps_def if_then_def js_includes_def js_startsWith_def)

lemma three_lines_fold:
  "foldl (parse_line nm) (empty_result, []) (js_split three_status_lines [CHR 0x0A])
     = (empty_result, [(''200'', 2), (''404'', 1)])"
  by (simp add: three_lines_split parse_line_def status_line_trim status_line_labels
        scan_status_def status_line_match status_line_includes)

lemma code_values: "parseInt_digits ''200'' = 200" "parseInt_digits ''404'' = 404"
  by (simp_all add: parseInt_digits_def digit_val_def)

lemma code_entries:
  "Object_entries_codes [(''200'', 2), (''404'', 1)] = [(''200'', 2), (''404'', 1)]"
  by (simp add: Object_entries_codes_def is_array_index_def is_digit_def code_values)

lemma code_tally:
  "foldl categorize (0, 0, 0, 0, []) [(''200'', 2), (''404'', 1)]
     = (2, 1, 0, 0, [\<lparr>es_statusCode = ''404'', es_count = 1, es_message = ''Not Found''\<rparr>])"
  by (simp add: categorize_def code_values getStatusMessage_def statusMessages_def)

theorem histogram_fields_iff_status_seen_witness:
  "\<not> list_ex (\<lambda>line. match_status (js_trim line) \<noteq> None) (js_split ''ab is done'' [CHR 0x0A])
   \<and> statusCodes (parseResults nan_num ''ab is done'') = None
   \<and> successfulRequests (parseResults nan_num ''ab is done'') = None
   \<and> errorSummary (parseResults nan_num ''ab is done'') = None
   \<and> list_ex (\<lambda>line. match_status (js_trim line) \<noteq> None)
        (js_split three_status_lines [CHR 0x0A])
   \<and> statusCodes (parseResults nan_num three_status_lines) \<noteq> None
   \<and> serverErrors (parseResults nan_num three_status_lines) \<noteq> None
   \<and> errorSummary (parseResults nan_num three_status_lines) \<noteq> None"
proof -
  have s: "js_split ''ab is done'' [CHR 0x0A] = [''ab is done'']"
    by (simp add: js_split.simps js_startsWith_def)
  have t: "js_trim ''ab is done'' = ''ab is done''"
    by (simp add: js_trim_def is_space_def)
  have m: "match_status ''ab is done'' = None"
    by (simp add: match_status_def status_at_def js_startsWith_def)
  have a: "\<not> list_ex (\<lambda>line. match_status (js_trim line) \<noteq> None)
               (js_split ''ab is done'' [CHR 0x0A])"
    by (simp add: s t m)
  have b: "list_ex (\<lambda>line. match_status (js_trim line) \<noteq> None)
             (js_split three_status_lines [CHR 0x0A])"
    by (simp add: three_lines_split status_line_trim status_line_match)
  from histogram_fields_iff_status_seen [of "''ab is done''" nan_num]
       histogram_fields_iff_status_seen [of three_status_lines nan_num] a b
  show ?thesis by blast
qed

text \<open>
  C5. For the three lines \<open>HTTP/1.1 200\<close>, \<open>HTTP/1.1 200\<close>, \<open>HTTP/1.1 404\<close> the
  status-code object maps \<open>200\<close> to 2 and \<open>404\<close> to 1, with two successful requests,
  one client error, and the server errors and redirects present as 0.
\<close>

theorem three_status_lines_histogram:
  "statusCodes (parseResults nm three_status_lines) = Some [(''200'', 2), (''404'', 1)]
 \<and> successfulRequests (parseResults nm three_status_lines) = Some 2
 \<and> clientErrors (parseResults nm three_status_lines) = Some 1
 \<and> serverErrors (parseResults nm three_status_lines) = Some 0
 \<and> redirects (parseResults nm three_status_lines) = Some 0
 \<and> errorSummary (parseResults nm three_status_lines)
     = Some [\<lparr>es_statusCode = ''404'', es_count = 1, es_message = ''Not Found''\<rparr>]"
  unfolding parseResults_def three_lines_fold prod.case code_entries code_tally
  by simp

section \<open>Properties of the runner\<close>

lemma on_stdout_line_stopped:
  "sessionId \<in> stoppedByUser w \<Longrightarrow> on_stdout_line js verb sessionId line w = w"
  by (simp add: on_stdout_line_def)

lemma on_stderr_data_stopped:
  "sessionId \<in> stoppedByUser w \<Longrightarrow> on_stderr_data sessionId chunk w = w"
  by (simp add: on_stderr_data_def)

lemma on_tick_stopped:
  "sessionId \<in> stoppedByUser w \<Longrightarrow> on_tick sessionId exited w = w"
  by (simp add: on_tick_def)

lemma stream_events_stopped:
  "run_session r \<in> stoppedByUser w \<Longrightarrow> list_all is_stream_event evs
     \<Longrightarrow> foldl (handle js nm r) w evs = w"
proof (induction evs)
  case Nil
  then show ?case by simp
next
  case (Cons e evs)
  from Cons.prems have "is_stream_event e" by simp
  with Cons.prems(1) have "handle js nm r w e = w"
    by (cases e) (simp_all add: on_stdout_line_stopped on_stderr_data_stopped on_tick_stopped)
  with Cons show ?case by simp
qed

lemma stopTest_sets_flag:
  "activeProcesses w sessionId = Some p \<Longrightarrow> \<not> killed p
     \<Longrightarrow> sessionId \<in> stoppedByUser (snd (stopTest kill_throws sessionId w))"
  by (simp add: stopTest_def Let_def)

lemma stopTest_emitted:
  "emitted (snd (stopTest kill_throws sessionId w)) = emitted w"
  by (simp add: stopTest_def Let_def split: option.splits)

lemma on_close_stopped_emitted:
  "sessionId \<in> stoppedByUser w
     \<Longrightarrow> emitted (on_close nm config sessionId file code w)
         = emitted w @ [(info, ''Test stopped by user'')]"
  by (simp add: on_close_def Let_def onLog_def cleanup_if_def split: option.splits)

text \<open>
  C2. A call of \<open>stopTest\<close> on a session with a live process sets the cancelled flag
  of the session whether or not the kill throws. From then on every stdout line, stderr
  chunk and heartbeat tick of the session leaves the state as it is and emits no log
  event, and the close of the process emits the one event \<open>Test stopped by user\<close>.
\<close>

theorem no_events_after_stop:
  assumes "activeProcesses w (run_session r) = Some p" and "\<not> killed p"
    and "list_all is_stream_event evs"
  shows "run_session r \<in> stoppedByUser (snd (stopTest kill_throws (run_session r) w))
       \<and> foldl (handle js nm r) (snd (stopTest kill_throws (run_session r) w)) evs
           = snd (stopTest kill_throws (run_session r) w)
       \<and> emitted (foldl (handle js nm r) (snd (stopTest kill_throws (run_session r) w)) evs)
           = emitted w
       \<and> emitted (handle js nm r
                    (foldl (handle js nm r) (snd (stopTest kill_throws (run_session r) w)) evs)
                    (Close code))
           = emitted w @ [(info, ''Test stopped by user'')]"
proof -
  let ?w1 = "snd (stopTest kill_throws (run_session r) w)"
  have flag: "run_session r \<in> stoppedByUser ?w1"
    using assms(1,2) by (rule stopTest_sets_flag)
  have same: "foldl (handle js nm r) ?w1 evs = ?w1"
    using flag assms(3) by (rule stream_events_stopped)
  have em: "emitted ?w1 = emitted w" by (rule stopTest_emitted)
  have cl: "emitted (handle js nm r ?w1 (Close code)) = emitted w @ [(info, ''Test stopped by user'')]"
    using on_close_stopped_emitted [OF flag] em by simp
  from flag same em cl show ?thesis by simp
qed

text \<open>The same callbacks on the session while it is not stopped do emit their events.\<close>

lemma unstopped_callbacks_emit:
  "emitted (foldl (handle unparsed_js nan_num sample_run) live_world
              [StdoutLine ''Benchmarking localhost'', StderrData ''Completed 100 requests'',
               Tick False])
     = [(info, rocket @ '' Benchmarking localhost''),
        (info, check_mark @ '' Finished: 100 requests''),
        (info, hourglass @ '' Test is running...'')]"
proof -
  have t1: "js_trim ''Benchmarking localhost'' = ''Benchmarking localhost''"
    by (simp add: js_trim_def is_space_def)
  have i1: "js_includes ''Benchmarking localhost'' ''Benchmarking''"
    by (simp add: js_includes_def js_startsWith_def)
  have s2: "js_split ''Completed 100 requests'' [CHR 0x0A] = [''Completed 100 requests'']"
    by (simp add: js_split.simps js_startsWith_def)
  have t2: "js_trim ''Completed 100 requests'' = ''Completed 100 requests''"
    by (simp add: js_trim_def is_space_def)
  have i2: "js_includes ''Completed 100 requests'' ''Completed''"
    "js_includes ''Completed 100 requests'' ''requests''"
    by (simp_all add: js_includes_def js_startsWith_def)
  have m2: "match_completed ''Completed 100 requests'' = Some ''100''"
    by (simp add: match_completed_def digits_between_def digits_of_def js_startsWith_def
          is_digit_def)
  have l2: "on_stderr_line ''Completed 100 requests'' w
              = onLog info (check_mark @ '' Finished: 100 requests'') w" for w :: "(string, int option) World"
    by (simp add: on_stderr_line_def t2 i2 m2)
  show ?thesis
    by (simp add: sample_run_def live_world_def empty_world_def on_stdout_line_def
          on_stderr_data_def on_tick_def onLog_def t1 i1 s2 t2 l2 Let_def)
qed

theorem no_events_after_stop_witness:
  "activeProcesses live_world (run_session sample_run) = Some \<lparr>pid = Some 42, killed = False\<rparr>
   \<and> run_session sample_run
        \<in> stoppedByUser (snd (stopTest False (run_session sample_run) live_world))
   \<and> emitted (foldl (handle unparsed_js nan_num sample_run)
                (snd (stopTest False (run_session sample_run) live_world))
                [StdoutLine ''Benchmarking localhost'', StderrData ''Completed 100 requests'',
                 Tick False])
       = []
   \<and> emitted (handle unparsed_js nan_num sample_run
                (foldl (handle unparsed_js nan_num sample_run)
                   (snd (stopTest False (run_session sample_run) live_world))
                   [StdoutLine ''Benchmarking localhost'', StderrData ''Completed 100 requests'',
                    Tick False])
                (Close None))
       = [(info, ''Test stopped by user'')]"
proof -
  have a: "activeProcesses live_world (run_session sample_run)
             = Some \<lparr>pid = Some 42, killed = False\<rparr>"
    by (simp add: live_world_def sample_run_def)
  have b: "\<not> killed \<lparr>pid = Some 42, killed = False\<rparr>" by simp
  have c: "list_all is_stream_event
             [StdoutLine ''Benchmarking localhost'', StderrData ''Completed 100 requests'',
              Tick False]"
    by (simp add: on_close_def Let_def onLog_def cleanup_if_def)
  have e: "emitted live_world = []" by (simp add: live_world_def empty_world_def)
  note th = no_events_after_stop [OF a b c, where kill_throws = False and js = unparsed_js
         and nm = nan_num and code = None]
  from th [unfolded e append_Nil] a show ?thesis by blast
qed

text \<open>
  C8. \<open>stopTest\<close> on a session with no process in the map, or with a process that is
  already killed, returns false and leaves the state as it is. After a call that
  returned true, a second call for the same session returns false and changes nothing:
  one kill signal has been sent, no log event has been emitted, and the close of the
  process emits \<open>Test stopped by user\<close> once.
\<close>

theorem stopTest_idempotent:
  "((activeProcesses w sessionId = None
       \<or> (\<exists>p. activeProcesses w sessionId = Some p \<and> killed p))
      \<longrightarrow> stopTest k sessionId w = (False, w))
   \<and> (fst (stopTest k sessionId w)
      \<longrightarrow> stopTest k' sessionId (snd (stopTest k sessionId w))
            = (False, snd (stopTest k sessionId w))
          \<and> (\<exists>p. activeProcesses w sessionId = Some p
                 \<and> kills (snd (stopTest k' sessionId (snd (stopTest k sessionId w))))
                     = kills w @ [pid p])
          \<and> emitted (snd (stopTest k' sessionId (snd (stopTest k sessionId w)))) = emitted w
          \<and> emitted (on_close nm config sessionId file code
                        (snd (stopTest k' sessionId (snd (stopTest k sessionId w)))))
              = emitted w @ [(info, ''Test stopped by user'')])"
proof (intro conjI impI)
  assume "activeProcesses w sessionId = None
       \<or> (\<exists>p. activeProcesses w sessionId = Some p \<and> killed p)"
  then show "stopTest k sessionId w = (False, w)"
    by (auto simp add: stopTest_def)
next
  assume ok: "fst (stopTest k sessionId w)"
  then obtain p where p: "activeProcesses w sessionId = Some p" "\<not> killed p" "\<not> k"
    by (auto simp add: stopTest_def Let_def split: option.splits if_splits)
  let ?w1 = "snd (stopTest k sessionId w)"
  from p have w1: "?w1 = w\<lparr>stoppedByUser := insert sessionId (stoppedByUser w),
                           kills := kills w @ [pid p],
                           activeProcesses := (activeProcesses w)(sessionId := None)\<rparr>"
    by (simp add: stopTest_def Let_def)
  then have gone: "activeProcesses ?w1 sessionId = None" by simp
  then show second: "stopTest k' sessionId ?w1 = (False, ?w1)"
    by (simp add: stopTest_def)
  from second w1 p
  show "\<exists>p. activeProcesses w sessionId = Some p
           \<and> kills (snd (stopTest k' sessionId ?w1)) = kills w @ [pid p]"
    by simp
  from second w1 show "emitted (snd (stopTest k' sessionId ?w1)) = emitted w" by simp
  have "sessionId \<in> stoppedByUser ?w1" using w1 by simp
  from on_close_stopped_emitted [OF this] second w1
  show "emitted (on_close nm config sessionId file code (snd (stopTest k' sessionId ?w1)))
          = emitted w @ [(info, ''Test stopped by user'')]"
    by simp
qed

theorem stopTest_idempotent_witness:
  "stopTest False ''s1'' empty_world = (False, empty_world)
   \<and> fst (stopTest False ''s1'' live_world)
   \<and> stopTest False ''s1'' (snd (stopTest False ''s1'' live_world))
       = (False, snd (stopTest False ''s1'' live_world))
   \<and> kills (snd (stopTest False ''s1'' (snd (stopTest False ''s1'' live_world)))) = [Some 42]
   \<and> emitted (snd (stopTest False ''s1'' (snd (stopTest False ''s1'' live_world)))) = []
   \<and> emitted (on_close nan_num sample_config ''s1'' None None
                (snd (stopTest False ''s1'' (snd (stopTest False ''s1'' live_world)))))
       = [(info, ''Test stopped by user'')]"
proof -
  have none: "activeProcesses empty_world ''s1'' = None" by (simp add: empty_world_def)
  have ok: "fst (stopTest False ''s1'' live_world)"
    by (simp add: stopTest_def live_world_def Let_def)
  have p: "activeProcesses live_world ''s1'' = Some \<lparr>pid = Some 42, killed = False\<rparr>"
    by (simp add: live_world_def)
  have e: "emitted live_world = []" "kills live_world = []"
    by (simp_all add: live_world_def empty_world_def)
  note th1 = stopTest_idempotent [of empty_world "''s1''" False False nan_num sample_config
                 None None]
  note th2 = stopTest_idempotent [of live_world "''s1''" False False nan_num sample_config
                 None None]
  from th1 none have 1: "stopTest False ''s1'' empty_world = (False, empty_world)" by blast
  from th2 ok have 2: "stopTest False ''s1'' (snd (stopTest False ''s1'' live_world))
       = (False, snd (stopTest False ''s1'' live_world))"
    and 3: "\<exists>q. activeProcesses live_world ''s1'' = Some q
              \<and> kills (snd (stopTest False ''s1'' (snd (stopTest False ''s1'' live_world))))
                  = kills live_world @ [pid q]"
    and 4: "emitted (snd (stopTest False ''s1'' (snd (stopTest False ''s1'' live_world))))
              = emitted live_world"
    and 5: "emitted (on_close nan_num sample_config ''s1'' None None
                (snd (stopTest False ''s1'' (snd (stopTest False ''s1'' live_world)))))
       = emitted live_world @ [(info, ''Test stopped by user'')]"
    by blast+
  from 3 p e have 3: "kills (snd (stopTest False ''s1'' (snd (stopTest False ''s1'' live_world))))
                        = [Some 42]"
    by auto
  from 1 ok 2 3 4 [unfolded e] 5 [unfolded e append_Nil] show ?thesis by blast
qed

lemma toString_1: "toString 1 = ''1''"
  by code_simp

lemma on_close_cancelled_cleanup:
  assumes "sessionId \<in> stoppedByUser w" and "f \<noteq> []"
  shows "unlinks (on_close nm config sessionId (Some f) code w) = unlinks w @ [f]"
    and "disk (on_close nm config sessionId (Some f) code w) f = None"
    and "settled (on_close nm config sessionId (Some f) code w) = Some (Resolved None)"
  using assms
  by (simp_all add: on_close_def Let_def onLog_def cleanup_if_def cleanupTempDataFile_def)

lemma on_close_succeeded_cleanup:
  assumes "sessionId \<notin> stoppedByUser w" and "f \<noteq> []"
  shows "unlinks (on_close nm config sessionId (Some f) (Some 0) w) = unlinks w @ [f]"
    and "disk (on_close nm config sessionId (Some f) (Some 0) w) f = None"
    and "settled (on_close nm config sessionId (Some f) (Some 0) w)
           = Some (Resolved (Some (assemble_result nm config
                                     (parseResults nm (output' (run_state w))))))"
  using assms
  by (simp_all add: on_close_def Let_def onLog_def cleanup_if_def cleanupTempDataFile_def)

lemma on_error_cleanup:
  assumes "f \<noteq> []"
  shows "unlinks (on_error (Some f) msg w) = unlinks w @ [f]"
    and "disk (on_error (Some f) msg w) f = None"
    and "settled (on_error (Some f) msg w) = Some (Rejected msg)"
  using assms
  by (simp_all add: on_error_def Let_def onLog_def cleanup_if_def cleanupTempDataFile_def)

lemma on_close_failed_no_cleanup:
  assumes "sessionId \<notin> stoppedByUser w" and "code \<noteq> Some 0"
  shows "unlinks (on_close nm config sessionId file code w) = unlinks w"
    and "disk (on_close nm config sessionId file code w) = disk w"
  using assms
  by (simp_all add: on_close_def Let_def onLog_def)

lemma post_config_valid: "validateConfig (\<lambda>u. True) post_config = []"
  by (simp add: validateConfig_def post_config_def sample_config_def)

lemma post_command:
  "buildCommand unparsed_js tmp_platform 0 post_config ''s1'' Map.empty
     = Inr (\<lparr>args = [''ab'', ''-n'', ''10'', ''-c'', ''2'', ''-m'', ''POST'', ''-v'', ''3'',
                     ''-p'', ''/tmp/ab-s1-0.txt'', ''http://localhost:8080/''],
             dataFile = Some ''/tmp/ab-s1-0.txt''\<rparr>,
            [''/tmp/ab-s1-0.txt'' \<mapsto> ''a b''])"
  by (simp add: buildCommand_def push_payload_def createTempDataFile_def body_transform
        post_config_def sample_config_def tmp_platform_def args_before_verbosity_def
        args_after_verbosity_def verbosity_arg_def toString_small toString_nat_0 Let_def)

lemma post_start:
  "fst (runTest_start (\<lambda>u. True) unparsed_js tmp_platform 0 (\<lambda>e. ''Error'') (Some 42)
          post_config ''s1'' empty_world) = Inr (Some ''/tmp/ab-s1-0.txt'')"
  "disk (snd (runTest_start (\<lambda>u. True) unparsed_js tmp_platform 0 (\<lambda>e. ''Error'') (Some 42)
          post_config ''s1'' empty_world)) = [''/tmp/ab-s1-0.txt'' \<mapsto> ''a b'']"
  "unlinks (snd (runTest_start (\<lambda>u. True) unparsed_js tmp_platform 0 (\<lambda>e. ''Error'') (Some 42)
          post_config ''s1'' empty_world)) = []"
  "stoppedByUser (snd (runTest_start (\<lambda>u. True) unparsed_js tmp_platform 0 (\<lambda>e. ''Error'') (Some 42)
          post_config ''s1'' empty_world)) = {}"
  "errorOutput (run_state (snd (runTest_start (\<lambda>u. True) unparsed_js tmp_platform 0 (\<lambda>e. ''Error'') (Some 42)
          post_config ''s1'' empty_world))) = []"
  by (simp_all add: runTest_start_def post_config_valid post_command Let_def onLog_def
        empty_world_def)

text \<open>
  C1. A run for a POST configuration with a body creates the payload file
  \<open>/tmp/ab-s1-0.txt\<close>. When its process then exits with code 1 and no stop was
  requested, the close callback rejects the promise and calls \<open>fs.unlink\<close> for no
  file: the payload file is still there. (The other exits delete it once:
  \<open>on_close_cancelled_cleanup\<close>, \<open>on_close_succeeded_cleanup\<close>,
  \<open>on_error_cleanup\<close>.)
\<close>

theorem failed_exit_leaves_payload_file:
  "fst (runTest_start (\<lambda>u. True) unparsed_js tmp_platform 0 (\<lambda>e. ''Error'') (Some 42)
          post_config ''s1'' empty_world) = Inr (Some ''/tmp/ab-s1-0.txt'')
   \<and> disk (on_close nan_num post_config ''s1'' (Some ''/tmp/ab-s1-0.txt'') (Some 1)
             (snd (runTest_start (\<lambda>u. True) unparsed_js tmp_platform 0 (\<lambda>e. ''Error'')
                     (Some 42) post_config ''s1'' empty_world)))
        ''/tmp/ab-s1-0.txt'' = Some ''a b''
   \<and> unlinks (on_close nan_num post_config ''s1'' (Some ''/tmp/ab-s1-0.txt'') (Some 1)
             (snd (runTest_start (\<lambda>u. True) unparsed_js tmp_platform 0 (\<lambda>e. ''Error'')
                     (Some 42) post_config ''s1'' empty_world))) = []
   \<and> settled (on_close nan_num post_config ''s1'' (Some ''/tmp/ab-s1-0.txt'') (Some 1)
             (snd (runTest_start (\<lambda>u. True) unparsed_js tmp_platform 0 (\<lambda>e. ''Error'')
                     (Some 42) post_config ''s1'' empty_world)))
        = Some (Rejected ''Apache Benchmark finished with code 1: '')"
proof -
  let ?w = "snd (runTest_start (\<lambda>u. True) unparsed_js tmp_platform 0 (\<lambda>e. ''Error'')
                     (Some 42) post_config ''s1'' empty_world)"
  have ns: "''s1'' \<notin> stoppedByUser ?w" by (simp add: post_start)
  have c: "Some (1::int) \<noteq> Some 0" by simp
  have "settled (on_close nan_num post_config ''s1'' (Some ''/tmp/ab-s1-0.txt'') (Some 1) ?w)
        = Some (Rejected ''Apache Benchmark finished with code 1: '')"
    using ns by (simp add: on_close_def Let_def onLog_def code_text_def toString_1 post_start)
  with on_close_failed_no_cleanup [OF ns c, of nan_num post_config "Some ''/tmp/ab-s1-0.txt''"]
  show ?thesis by (simp add: post_start)
qed

text \<open>
  C3 (amended). After an exit with code 0 of a run that was not stopped, the promise
  is resolved with the assembled result. In it a key that parsing left unset is 0 for
  the time taken, the complete and failed requests, the total and HTML bytes, the
  requests per second, the two times per request and the transfer rate; it is 80 for
  the server port and the configured concurrency for the concurrency level; the
  document length and the six histogram-derived keys are as parsing left them, absent
  when unset.
\<close>

theorem assembled_result_defaults:
  assumes "sessionId \<notin> stoppedByUser w"
  shows "settled (on_close nm config sessionId file (Some 0) w)
           = Some (Resolved (Some (assemble_result nm config
                                     (parseResults nm (output' (run_state w))))))
       \<and> (timeTaken parsed = None \<longrightarrow> timeTaken (assemble_result nm config parsed) = Some (num nm 0))
       \<and> (completeRequests parsed = None
            \<longrightarrow> completeRequests (assemble_result nm config parsed) = Some (num nm 0))
       \<and> (failedRequests parsed = None
            \<longrightarrow> failedRequests (assemble_result nm config parsed) = Some (num nm 0))
       \<and> (totalTransferred parsed = None
            \<longrightarrow> totalTransferred (assemble_result nm config parsed) = Some (num nm 0))
       \<and> (htmlTransferred parsed = None
            \<longrightarrow> htmlTransferred (assemble_result nm config parsed) = Some (num nm 0))
       \<and> (requestsPerSecond parsed = None
            \<longrightarrow> requestsPerSecond (assemble_result nm config parsed) = Some (num nm 0))
       \<and> (timePerRequest parsed = None
            \<longrightarrow> timePerRequest (assemble_result nm config parsed) = Some (num nm 0))
       \<and> (timePerRequestConcurrent parsed = None
            \<longrightarrow> timePerRequestConcurrent (assemble_result nm config parsed) = Some (num nm 0))
       \<and> (transferRate parsed = None
            \<longrightarrow> transferRate (assemble_result nm config parsed) = Some (num nm 0))
       \<and> (serverPort parsed = None
            \<longrightarrow> serverPort (assemble_result nm config parsed) = Some (num nm 80))
       \<and> (concurrencyLevel parsed = None
            \<longrightarrow> concurrencyLevel (assemble_result nm config parsed)
                 = Some (num nm (concurrency config)))
       \<and> documentLength (assemble_result nm config parsed) = documentLength parsed
       \<and> statusCodes (assemble_result nm config parsed) = statusCodes parsed
       \<and> successfulRequests (assemble_result nm config parsed) = successfulRequests parsed
       \<and> clientErrors (assemble_result nm config parsed) = clientErrors parsed
       \<and> serverErrors (assemble_result nm config parsed) = serverErrors parsed
       \<and> redirects (assemble_result nm config parsed) = redirects parsed
       \<and> errorSummary (assemble_result nm config parsed) = errorSummary parsed"
proof -
  have 1: "settled (on_close nm config sessionId file (Some 0) w)
           = Some (Resolved (Some (assemble_result nm config
                                     (parseResults nm (output' (run_state w))))))"
    using assms
    by (simp add: on_close_def Let_def onLog_def cleanup_if_def split: option.splits)
  have rest: "(timeTaken parsed = None \<longrightarrow> timeTaken (assemble_result nm config parsed) = Some (num nm 0))
       \<and> (completeRequests parsed = None
            \<longrightarrow> completeRequests (assemble_result nm config parsed) = Some (num nm 0))
       \<and> (failedRequests parsed = None
            \<longrightarrow> failedRequests (assemble_result nm config parsed) = Some (num nm 0))
       \<and> (totalTransferred parsed = None
            \<longrightarrow> totalTransferred (assemble_result nm config parsed) = Some (num nm 0))
       \<and> (htmlTransferred parsed = None
            \<longrightarrow> htmlTransferred (assemble_result nm config parsed) = Some (num nm 0))
       \<and> (requestsPerSecond parsed = None
            \<longrightarrow> requestsPerSecond (assemble_result nm config parsed) = Some (num nm 0))
       \<and> (timePerRequest parsed = None
            \<longrightarrow> timePerRequest (assemble_result nm config parsed) = Some (num nm 0))
       \<and> (timePerRequestConcurrent parsed = None
            \<longrightarrow> timePerRequestConcurrent (assemble_result nm config parsed) = Some (num nm 0))
       \<and> (transferRate parsed = None
            \<longrightarrow> transferRate (assemble_result nm config parsed) = Some (num nm 0))
       \<and> (serverPort parsed = None
            \<longrightarrow> serverPort (assemble_result nm config parsed) = Some (num nm 80))
       \<and> (concurrencyLevel parsed = None
            \<longrightarrow> concurrencyLevel (assemble_result nm config parsed)
                 = Some (num nm (concurrency config)))
       \<and> documentLength (assemble_result nm config parsed) = documentLength parsed
       \<and> statusCodes (assemble_result nm config parsed) = statusCodes parsed
       \<and> successfulRequests (assemble_result nm config parsed) = successfulRequests parsed
       \<and> clientErrors (assemble_result nm config parsed) = clientErrors parsed
       \<and> serverErrors (assemble_result nm config parsed) = serverErrors parsed
       \<and> redirects (assemble_result nm config parsed) = redirects parsed
       \<and> errorSummary (assemble_result nm config parsed) = errorSummary parsed"
    by (simp add: assemble_result_def spread_def or_num_def split: option.splits)
  from 1 rest show ?thesis by (rule conjI)
qed

theorem assembled_result_defaults_witness:
  "''s1'' \<notin> stoppedByUser empty_world
   \<and> settled (on_close nan_num sample_config ''s1'' None (Some 0) empty_world)
       = Some (Resolved (Some (assemble_result nan_num sample_config
                                 (parseResults nan_num (output' (run_state empty_world))))))
   \<and> timeTaken (empty_result :: int option ABTestResult) = None
   \<and> timeTaken (assemble_result nan_num sample_config empty_result) = Some (num nan_num 0)
   \<and> transferRate (empty_result :: int option ABTestResult) = None
   \<and> transferRate (assemble_result nan_num sample_config empty_result) = Some (num nan_num 0)
   \<and> serverPort (empty_result :: int option ABTestResult) = None
   \<and> serverPort (assemble_result nan_num sample_config empty_result) = Some (num nan_num 80)
   \<and> concurrencyLevel (empty_result :: int option ABTestResult) = None
   \<and> concurrencyLevel (assemble_result nan_num sample_config empty_result)
       = Some (num nan_num (concurrency sample_config))
   \<and> documentLength (assemble_result nan_num sample_config empty_result) = None
   \<and> statusCodes (assemble_result nan_num sample_config empty_result) = None"
proof -
  have ns: "''s1'' \<notin> stoppedByUser empty_world" by (simp add: empty_world_def)
  have e: "timeTaken (empty_result :: int option ABTestResult) = None"
    "transferRate (empty_result :: int option ABTestResult) = None"
    "serverPort (empty_result :: int option ABTestResult) = None"
    "concurrencyLevel (empty_result :: int option ABTestResult) = None"
    "documentLength (empty_result :: int option ABTestResult) = None"
    "statusCodes (empty_result :: int option ABTestResult) = None"
    by (simp_all add: empty_result_def)
  note th = assembled_result_defaults [OF ns, of nan_num sample_config None empty_result]
  from th e have "documentLength (assemble_result nan_num sample_config empty_result) = None"
    "statusCodes (assemble_result nan_num sample_config empty_result) = None"
    by simp_all
  with th ns e show ?thesis by blast
qed

text \<open>
  C3 as it is stated fails on the empty transcript: no line sets the server port or the
  concurrency level, and the assembled result has the port 80 and the configured
  concurrency 2, not 0; the document length stays absent.
\<close>

theorem default_port_counterexample:
  "serverPort (parseResults nan_num []) = None
   \<and> settled (on_close nan_num sample_config ''s1'' None (Some 0) empty_world)
       = Some (Resolved (Some (assemble_result nan_num sample_config (parseResults nan_num []))))
   \<and> serverPort (assemble_result nan_num sample_config (parseResults nan_num [])) = Some (Some 80)
   \<and> concurrencyLevel (parseResults nan_num []) = None
   \<and> concurrencyLevel (assemble_result nan_num sample_config (parseResults nan_num []))
       = Some (Some 2)
   \<and> documentLength (assemble_result nan_num sample_config (parseResults nan_num [])) = None
   \<and> num nan_num 0 = Some 0"
proof -
  have s: "js_split [] [CHR 0x0A] = [[]]"
    by (simp add: js_split.simps)
  have l: "parse_labels nan_num [] r = r" for r
    by (simp add: parse_labels_def label_steps_def if_then_def js_includes_def js_startsWith_def)
  have p: "parseResults nan_num [] = empty_result"
    by (simp add: parseResults_def s parse_line_def js_trim_def l scan_status_def
          js_includes_def js_startsWith_def)
  have o: "output' (run_state empty_world) = []" "''s1'' \<notin> stoppedByUser empty_world"
    by (simp_all add: empty_world_def)
  from o
  have c: "settled (on_close nan_num sample_config ''s1'' None (Some 0) empty_world)
       = Some (Resolved (Some (assemble_result nan_num sample_config (parseResults nan_num []))))"
    by (simp add: on_close_def Let_def onLog_def cleanup_if_def)
  show ?thesis
    unfolding c p
    by (simp add: assemble_result_def empty_result_def spread_def or_num_def nan_num_def
          sample_config_def)
qed

section \<open>Properties of the session store\<close>

lemma slice_last_again: "slice_last n (slice_last n xs @ ys) = slice_last n (xs @ ys)"
proof (cases "length xs \<le> n")
  case True
  then show ?thesis by (simp add: slice_last_def)
next
  case False
  then have a: "length ys + (length xs - n) = length xs + length ys - n" by simp
  have "drop (length ys) (drop (length xs - n) xs @ ys)
          = drop (length xs + length ys - n) (xs @ ys)"
    using False by (simp add: a)
  then show ?thesis using False by (simp add: slice_last_def)
qed

lemma slice_last_short: "length xs \<le> n \<Longrightarrow> slice_last n xs = xs"
  by (simp add: slice_last_def)

lemma addLogToSession_logs:
  assumes "sessions srv sessionId = Some s"
  shows "sessions (fst (addLogToSession now sessionId lvl msg srv)) sessionId
           = Some (s\<lparr>logs := slice_last MAX_LOGS_PER_SESSION
                              (logs s @ [\<lparr>timestamp = now, level = lvl, message = msg\<rparr>])\<rparr>)"
  using assms by (simp add: addLogToSession_def Let_def slice_last_def)

lemma addLogToSession_other:
  "sid \<noteq> sessionId
     \<Longrightarrow> sessions (fst (addLogToSession now sessionId lvl msg srv)) sid = sessions srv sid"
  by (simp add: addLogToSession_def Let_def split: option.splits)

lemma addLogs_logs:
  assumes "sessions srv sid = Some s"
  shows "sessions (addLogs calls srv) sid
           = Some (s\<lparr>logs := (if entries_for sid calls = [] then logs s
                               else slice_last MAX_LOGS_PER_SESSION (logs s @ entries_for sid calls))\<rparr>)"
  using assms
proof (induction calls arbitrary: srv s)
  case Nil
  then show ?case by (simp add: entries_for_def)
next
  case (Cons c calls)
  obtain now sessionId lvl msg where c: "c = (now, sessionId, lvl, msg)" by (cases c) auto
  let ?srv = "fst (addLogToSession now sessionId lvl msg srv)"
  show ?case
  proof (cases "sessionId = sid")
    case True
    let ?e = "\<lparr>timestamp = now, level = lvl, message = msg\<rparr>"
    let ?s = "s\<lparr>logs := slice_last MAX_LOGS_PER_SESSION (logs s @ [?e])\<rparr>"
    from Cons.prems True have "sessions ?srv sid = Some ?s"
      by (simp add: addLogToSession_logs)
    from Cons.IH [OF this] c True show ?thesis
      using slice_last_again [of MAX_LOGS_PER_SESSION "logs s @ [?e]" "entries_for sid calls"]
      by (simp add: entries_for_def)
  next
    case False
    then have "sessions ?srv sid = Some s"
      using Cons.prems by (simp add: addLogToSession_other)
    from Cons.IH [OF this] c False show ?thesis by (simp add: entries_for_def)
  qed
qed

text \<open>
  C9. After \<open>addLogToSession\<close> on an existing session its log buffer is the last 500
  entries of the old buffer followed by the new entry, in their order, so it holds at
  most 500 entries. After any sequence of calls, a buffer that held at most 500 entries
  or got an entry is the last 500 of its old entries followed by the entries the calls
  made for the session, in their order.
\<close>

theorem log_buffer_bounded_fifo:
  assumes "sessions srv sid = Some s"
  shows "(\<exists>s'. sessions (fst (addLogToSession now sid lvl msg srv)) sid = Some s'
            \<and> logs s' = drop (length (logs s) + 1 - 500)
                           (logs s @ [\<lparr>timestamp = now, level = lvl, message = msg\<rparr>])
            \<and> length (logs s') \<le> 500)
       \<and> (length (logs s) \<le> 500 \<or> entries_for sid calls \<noteq> [] \<longrightarrow>
            (\<exists>s'. sessions (addLogs calls srv) sid = Some s'
               \<and> logs s' = drop (length (logs s @ entries_for sid calls) - 500)
                              (logs s @ entries_for sid calls)
               \<and> length (logs s') \<le> 500))"
proof (intro conjI impI)
  from addLogToSession_logs [OF assms, of now lvl msg]
  show "\<exists>s'. sessions (fst (addLogToSession now sid lvl msg srv)) sid = Some s'
            \<and> logs s' = drop (length (logs s) + 1 - 500)
                           (logs s @ [\<lparr>timestamp = now, level = lvl, message = msg\<rparr>])
            \<and> length (logs s') \<le> 500"
    by (simp add: slice_last_def MAX_LOGS_PER_SESSION_def)
next
  assume short: "length (logs s) \<le> 500 \<or> entries_for sid calls \<noteq> []"
  have "sessions (addLogs calls srv) sid
          = Some (s\<lparr>logs := slice_last MAX_LOGS_PER_SESSION (logs s @ entries_for sid calls)\<rparr>)"
  proof (cases "entries_for sid calls = []")
    case True
    with short have "slice_last MAX_LOGS_PER_SESSION (logs s) = logs s"
      by (simp add: slice_last_short MAX_LOGS_PER_SESSION_def)
    with addLogs_logs [OF assms, of calls] True show ?thesis by simp
  next
    case False
    with addLogs_logs [OF assms, of calls] show ?thesis by simp
  qed
  then show "\<exists>s'. sessions (addLogs calls srv) sid = Some s'
               \<and> logs s' = drop (length (logs s @ entries_for sid calls) - 500)
                              (logs s @ entries_for sid calls)
               \<and> length (logs s') \<le> 500"
    by (simp add: slice_last_def MAX_LOGS_PER_SESSION_def)
qed

theorem log_buffer_bounded_fifo_witness:
  "sessions full_server ''s1'' = Some full_session
   \<and> length (logs full_session) = 500
   \<and> (\<exists>s'. sessions (fst (addLogToSession 7 ''s1'' error ''new'' full_server)) ''s1'' = Some s'
          \<and> logs s' = replicate 499 \<lparr>timestamp = 0, level = info, message = ''old''\<rparr>
                       @ [\<lparr>timestamp = 7, level = error, message = ''new''\<rparr>]
          \<and> length (logs s') \<le> 500)
   \<and> (\<exists>s'. sessions (addLogs [(7, ''s1'', error, ''new''), (8, ''s2'', info, ''other''),
                                (9, ''s1'', debug, ''newer'')] full_server) ''s1'' = Some s'
          \<and> logs s' = replicate 498 \<lparr>timestamp = 0, level = info, message = ''old''\<rparr>
                       @ [\<lparr>timestamp = 7, level = error, message = ''new''\<rparr>,
                          \<lparr>timestamp = 9, level = debug, message = ''newer''\<rparr>]
          \<and> length (logs s') \<le> 500)"
proof -
  have a: "sessions full_server ''s1'' = Some full_session"
    by (simp add: full_server_def)
  have b: "length (logs full_session) = 500"
    by (simp add: full_session_def)
  have r1: "drop (Suc 0) (replicate 500 x) = replicate 499 x" for x :: LogEntry
    by (simp add: drop_replicate)
  have r2: "drop 2 (replicate 500 x) = replicate 498 x" for x :: LogEntry
    by (simp add: drop_replicate)
  from log_buffer_bounded_fifo [OF a, of 7 error "''new''"
         "[(7, ''s1'', error, ''new''), (8, ''s2'', info, ''other''), (9, ''s1'', debug, ''newer'')]"]
       a b
  show ?thesis
    by (simp add: entries_for_def full_session_def r1 r2)
qed

end
